theory Spec2Isabelle
  imports Complex_Main
begin

section \<open>Numeric values of a pandas series\<close>

text \<open>
  A cell of a pandas/numpy float64 series is a finite number, one of the two
  infinities, or NaN.  Finite arithmetic is taken exact (rounding is not
  modelled) and zero carries no sign: dividing by zero divides by +0, which is
  what the columns of this program produce (means of non-negative numbers).
\<close>

datatype fl = Fin real | PInf | NInf | NaN

fun fneg :: "fl \<Rightarrow> fl" where
  "fneg (Fin x) = Fin (- x)"
| "fneg PInf = NInf"
| "fneg NInf = PInf"
| "fneg NaN = NaN"

fun fadd :: "fl \<Rightarrow> fl \<Rightarrow> fl" where
  "fadd (Fin x) (Fin y) = Fin (x + y)"
| "fadd NaN v = NaN"
| "fadd v NaN = NaN"
| "fadd PInf NInf = NaN"
| "fadd NInf PInf = NaN"
| "fadd PInf v = PInf"
| "fadd NInf v = NInf"
| "fadd v PInf = PInf"
| "fadd v NInf = NInf"

definition fsub :: "fl \<Rightarrow> fl \<Rightarrow> fl" where
  "fsub a b = fadd a (fneg b)"

fun fmul :: "fl \<Rightarrow> fl \<Rightarrow> fl" where
  "fmul (Fin x) (Fin y) = Fin (x * y)"
| "fmul NaN v = NaN"
| "fmul v NaN = NaN"
| "fmul PInf (Fin y) = (if y = 0 then NaN else if 0 < y then PInf else NInf)"
| "fmul NInf (Fin y) = (if y = 0 then NaN else if 0 < y then NInf else PInf)"
| "fmul (Fin x) PInf = (if x = 0 then NaN else if 0 < x then PInf else NInf)"
| "fmul (Fin x) NInf = (if x = 0 then NaN else if 0 < x then NInf else PInf)"
| "fmul PInf PInf = PInf"
| "fmul NInf NInf = PInf"
| "fmul PInf NInf = NInf"
| "fmul NInf PInf = NInf"

fun fdiv :: "fl \<Rightarrow> fl \<Rightarrow> fl" where
  "fdiv (Fin x) (Fin y) =
     (if y = 0 then (if x = 0 then NaN else if 0 < x then PInf else NInf)
      else Fin (x / y))"
| "fdiv NaN v = NaN"
| "fdiv v NaN = NaN"
| "fdiv (Fin x) PInf = Fin 0"
| "fdiv (Fin x) NInf = Fin 0"
| "fdiv PInf (Fin y) = (if y < 0 then NInf else PInf)"
| "fdiv NInf (Fin y) = (if y < 0 then PInf else NInf)"
| "fdiv PInf PInf = NaN"
| "fdiv PInf NInf = NaN"
| "fdiv NInf PInf = NaN"
| "fdiv NInf NInf = NaN"

fun fabs :: "fl \<Rightarrow> fl" where
  "fabs (Fin x) = Fin \<bar>x\<bar>"
| "fabs PInf = PInf"
| "fabs NInf = PInf"
| "fabs NaN = NaN"

text \<open>The finite observation in a cell, if any.  pandas' rolling windows
  turn infinities into NaN before aggregating, and skip NaN.\<close>

fun fin_of :: "fl \<Rightarrow> real option" where
  "fin_of (Fin x) = Some x"
| "fin_of PInf = None"
| "fin_of NInf = None"
| "fin_of NaN = None"

section \<open>The pandas operations the program calls\<close>

text \<open>\<^verbatim>\<open>series.iloc[-n:]\<close>: the last \<open>n\<close> cells; the whole series when
  \<open>n = 0\<close> or \<open>n\<close> exceeds the length; all but the first \<open>-n\<close> when \<open>n\<close> is
  negative.\<close>

definition py_tail :: "int \<Rightarrow> 'a list \<Rightarrow> 'a list" where
  "py_tail n xs =
     (if 0 < n then drop (length xs - nat n) xs else drop (nat (- n)) xs)"

text \<open>\<^verbatim>\<open>series.ewm(span=s, adjust=False).mean()\<close> on a series without NaN.\<close>

fun ewm_from :: "real \<Rightarrow> real \<Rightarrow> real list \<Rightarrow> real list" where
  "ewm_from a prev [] = []"
| "ewm_from a prev (x # xs) =
     (let y = (1 - a) * prev + a * x in y # ewm_from a y xs)"

definition ewm_mean :: "real \<Rightarrow> real list \<Rightarrow> real list" where
  "ewm_mean sp xs =
     (case xs of [] \<Rightarrow> [] | x # rest \<Rightarrow> x # ewm_from (2 / (sp + 1)) x rest)"

text \<open>\<^verbatim>\<open>series.diff()\<close>: NaN first, then each cell minus its predecessor.\<close>

definition diff :: "real list \<Rightarrow> fl list" where
  "diff xs =
     (case xs of [] \<Rightarrow> []
      | x # rest \<Rightarrow> NaN # map2 (\<lambda>prev cur. Fin (cur - prev)) xs rest)"

text \<open>The observations of the window of width \<open>w\<close> that ends at position \<open>t\<close>.\<close>

definition window_obs :: "nat \<Rightarrow> fl list \<Rightarrow> nat \<Rightarrow> real list" where
  "window_obs w xs t = List.map_filter fin_of (drop (Suc t - w) (take (Suc t) xs))"

text \<open>\<^verbatim>\<open>min_periods\<close>: the window width itself when the argument is left out.\<close>

definition min_periods_of :: "nat \<Rightarrow> nat option \<Rightarrow> nat" where
  "min_periods_of w mp = (case mp of None \<Rightarrow> w | Some m \<Rightarrow> m)"

definition rolling_mean :: "nat \<Rightarrow> nat option \<Rightarrow> fl list \<Rightarrow> fl list" where
  "rolling_mean w mp xs =
     map (\<lambda>t. let obs = window_obs w xs t in
               if min_periods_of w mp \<le> length obs \<and> obs \<noteq> []
               then Fin (sum_list obs / real (length obs)) else NaN)
         [0..<length xs]"

definition rolling_sum :: "nat \<Rightarrow> nat option \<Rightarrow> fl list \<Rightarrow> fl list" where
  "rolling_sum w mp xs =
     map (\<lambda>t. let obs = window_obs w xs t in
               if min_periods_of w mp \<le> length obs then Fin (sum_list obs) else NaN)
         [0..<length xs]"

text \<open>Arithmetic of two series over the same index, and of a series with a number.\<close>

definition series_sub :: "fl list \<Rightarrow> fl list \<Rightarrow> fl list" where
  "series_sub xs ys = map2 fsub xs ys"

definition series_add :: "fl list \<Rightarrow> fl list \<Rightarrow> fl list" where
  "series_add xs ys = map2 fadd xs ys"

definition series_div :: "fl list \<Rightarrow> fl list \<Rightarrow> fl list" where
  "series_div xs ys = map2 fdiv xs ys"

text \<open>A series minus a trailing slice of a series over the same index: pandas
  aligns the two on their labels, and a label the slice lacks gives NaN.\<close>

definition series_sub_tail :: "fl list \<Rightarrow> fl list \<Rightarrow> fl list" where
  "series_sub_tail full tl_part =
     map2 fsub full (replicate (length full - length tl_part) NaN @ tl_part)"

section \<open>Scaling\<close>

text \<open>\<^verbatim>\<open>(column_values - low) / diff\<close> of \<^verbatim>\<open>indicators_past_num_days\<close>, on one cell
  and on a column.\<close>

definition scale_value :: "real \<Rightarrow> real \<Rightarrow> fl \<Rightarrow> fl" where
  "scale_value low d v = fdiv (fsub v (Fin low)) (Fin d)"

definition scale_series :: "real \<Rightarrow> real \<Rightarrow> fl list \<Rightarrow> fl list" where
  "scale_series low d vs = map (scale_value low d) vs"

section \<open>Errors, dates and the data the program holds\<close>

text \<open>The exceptions the modelled code can raise.\<close>

datatype error =
    ConnectionError | ValueError | RuntimeError | LookupError | KeyError
  | IndexError | TypeError | ZeroDivisionError | AttributeError | FileNotFoundError
  | NameError

text \<open>
  A date is the number of its day.  Python holds it either as the string
  \<^verbatim>\<open>YYYY-MM-DD\<close> or as a \<^verbatim>\<open>datetime\<close> object, and a string never equals a
  \<^verbatim>\<open>datetime\<close>, also when both name the same day.
\<close>

datatype pydate = DStr int | DTime int

text \<open>\<^verbatim>\<open>datetime.strptime(d, "%Y-%m-%d")\<close>, and \<^verbatim>\<open>d - relativedelta(days=k)\<close>
  (\<^verbatim>\<open>timedelta(days=k)\<close> in the older file).\<close>

definition strptime :: "int \<Rightarrow> pydate" where
  "strptime d = DTime d"

fun minus_days :: "pydate \<Rightarrow> int \<Rightarrow> pydate" where
  "minus_days (DTime d) k = DTime (d - k)"
| "minus_days (DStr d) k = DStr d"

fun strftime :: "pydate \<Rightarrow> pydate" where
  "strftime (DTime d) = DStr d"
| "strftime (DStr d) = DStr d"

text \<open>\<^verbatim>\<open>xs.index(y)\<close>: the first position of \<open>y\<close>; \<open>None\<close> stands for the
  \<^verbatim>\<open>ValueError\<close> raised when \<open>y\<close> is not in the list.\<close>

fun py_index :: "'a list \<Rightarrow> 'a \<Rightarrow> nat option" where
  "py_index [] y = None"
| "py_index (x # xs) y = (if x = y then Some 0 else map_option Suc (py_index xs y))"

text \<open>\<^verbatim>\<open>xs[a:b]\<close> with Python's treatment of negative and oversized bounds.\<close>

definition py_slice :: "int \<Rightarrow> int \<Rightarrow> 'a list \<Rightarrow> 'a list" where
  "py_slice a b xs =
     (let n = int (length xs);
          lo = (if a < 0 then max 0 (a + n) else min a n);
          hi = (if b < 0 then max 0 (b + n) else min b n)
      in drop (nat lo) (take (nat hi) xs))"

text \<open>\<^verbatim>\<open>xs[i]\<close> for a position \<open>i\<close> that is not negative.\<close>

definition py_get :: "'a list \<Rightarrow> nat \<Rightarrow> error + 'a" where
  "py_get xs i = (if i < length xs then Inr (xs ! i) else Inl IndexError)"

text \<open>Running a fallible step over a list, stopping at the first exception.\<close>

primrec collect :: "('a \<Rightarrow> error + 'b) \<Rightarrow> 'a list \<Rightarrow> error + 'b list" where
  "collect f [] = Inr []"
| "collect f (i # rest) =
     (case f i of Inl e \<Rightarrow> Inl e
      | Inr v \<Rightarrow> (case collect f rest of Inl e \<Rightarrow> Inl e | Inr vs \<Rightarrow> Inr (v # vs)))"

text \<open>The raw history: a \<^verbatim>\<open>DataFrame\<close> as its rows (date, Close, Volume), dates
  increasing and distinct.\<close>

type_synonym frame = "(int \<times> real \<times> real) list"

definition Close :: "frame \<Rightarrow> real list" where
  "Close f = map (\<lambda>r. fst (snd r)) f"

definition Volume :: "frame \<Rightarrow> real list" where
  "Volume f = map (\<lambda>r. snd (snd r)) f"

text \<open>A cell of the persisted snapshot (\<^verbatim>\<open>info.json\<close>) and of the feature
  window: a number or a date string.  The snapshot is a JSON object from
  column names to lists.\<close>

datatype cell = Num fl | Day int

type_synonym snapshot = "(string \<times> cell list) list"

text \<open>\<^verbatim>\<open>self.cached_info\<close>: nothing yet, the raw history (online), or the
  snapshot (offline).\<close>

datatype info = NoInfo | Frame frame | Snap snapshot

text \<open>A numpy array as the program builds them: one-dimensional, a matrix of
  rows with its number of columns, or the three-dimensional block that
  \<^verbatim>\<open>get_info_today\<close> returns.\<close>

datatype ndarray = Vec "cell list" | Mat nat "cell list list" | Cube "cell list list list"

fun array_len :: "ndarray \<Rightarrow> nat" where
  "array_len (Vec xs) = length xs"
| "array_len (Mat k rws) = length rws"
| "array_len (Cube bs) = length bs"

text \<open>\<^verbatim>\<open>np.transpose\<close> of a list of columns.\<close>

definition np_transpose :: "cell list list \<Rightarrow> error + ndarray" where
  "np_transpose cols =
     (case cols of [] \<Rightarrow> Inr (Vec [])
      | c # rest \<Rightarrow>
          if list_all (\<lambda>c'. length c' = length c) rest
          then Inr (Mat (length cols) (transpose cols))
          else Inl ValueError)"

text \<open>\<^verbatim>\<open>np.concatenate((a[1:], [row]))\<close>.\<close>

fun drop_first_append :: "ndarray \<Rightarrow> cell list \<Rightarrow> error + ndarray" where
  "drop_first_append (Mat k rws) row =
     (if k = length row then Inr (Mat k (tl rws @ [row])) else Inl ValueError)"
| "drop_first_append (Vec xs) row = Inl ValueError"
| "drop_first_append (Cube bs) row = Inl ValueError"

text \<open>A column of the \<^verbatim>\<open>stock_data\<close> dictionary: a pandas series or a plain
  Python list.\<close>

datatype col = Series "fl list" | PyList "fl list"

text \<open>
  What the program imports and this repository's sources do not hold
  (\<^verbatim>\<open>trading_funcs\<close>, \<^verbatim>\<open>get_info\<close>, \<^verbatim>\<open>yfinance\<close>, the market calendar, the
  file system): taken as parameters.
\<close>

record ext =
  liquidity_gradual :: "real list \<Rightarrow> fl list"
  liquidity_sharp :: "real list \<Rightarrow> fl list"
  calculate_momentum_oscillator :: "real list \<Rightarrow> fl list"
  process_flips :: "fl list \<Rightarrow> fl list \<Rightarrow> fl list"
  get_earnings_history :: "string \<Rightarrow> pydate list \<times> real list"
  excluded_values :: "string list"
  is_floats :: "col \<Rightarrow> bool"
  history :: "string \<Rightarrow> int \<Rightarrow> int \<Rightarrow> frame"
  on_schedule :: "int \<Rightarrow> bool"
  info_json :: "string \<Rightarrow> snapshot option"

section \<open>\<^verbatim>\<open>Stock-Bot-Predicter-AI/models.py\<close>: indicators of the trailing window\<close>

type_synonym scaler = "(string \<times> real \<times> real) list"

type_synonym stock_dict = "(string \<times> col) list"

text \<open>\<^verbatim>\<open>stock_data[k] = v\<close>, and the same under \<^verbatim>\<open>if k in information_keys\<close>.  A
  later entry for a key hides the earlier one (\<open>map_of\<close> reads the first).\<close>

definition put :: "string \<Rightarrow> col \<Rightarrow> stock_dict \<Rightarrow> stock_dict" where
  "put k v d = (k, v) # d"

definition put_if :: "string list \<Rightarrow> string \<Rightarrow> col \<Rightarrow> stock_dict \<Rightarrow> stock_dict" where
  "put_if keys k v d = (if k \<in> set keys then put k v d else d)"

definition ema_series :: "real \<Rightarrow> real list \<Rightarrow> fl list" where
  "ema_series sp close = map Fin (ewm_mean sp close)"

text \<open>\<^verbatim>\<open>lambda x: x if x > 0 else 0\<close> and \<^verbatim>\<open>lambda x: abs(x) if x < 0 else 0\<close>; a
  comparison with NaN is false.\<close>

fun gain_of :: "fl \<Rightarrow> fl" where
  "gain_of (Fin x) = (if 0 < x then Fin x else Fin 0)"
| "gain_of PInf = PInf"
| "gain_of NInf = Fin 0"
| "gain_of NaN = Fin 0"

fun loss_of :: "fl \<Rightarrow> fl" where
  "loss_of (Fin x) = (if x < 0 then Fin \<bar>x\<bar> else Fin 0)"
| "loss_of NInf = PInf"
| "loss_of PInf = Fin 0"
| "loss_of NaN = Fin 0"

text \<open>\<^verbatim>\<open>100 - (100 / (1 + relative_strength))\<close>.\<close>

definition rsi_of :: "fl \<Rightarrow> fl" where
  "rsi_of rs = fsub (Fin 100) (fdiv (Fin 100) (fadd (Fin 1) rs))"

text \<open>Lines 412 to 416: MACD and its signal line.\<close>

definition macd_series :: "real list \<Rightarrow> fl list" where
  "macd_series close = series_sub (ema_series 12 close) (ema_series 26 close)"

definition signal_line :: "int \<Rightarrow> real list \<Rightarrow> fl list" where
  "signal_line num_days close =
     py_tail num_days (rolling_mean 9 (Some 1) (macd_series close))"

text \<open>Lines 428 and 429.\<close>

definition histogram :: "int \<Rightarrow> real list \<Rightarrow> fl list" where
  "histogram num_days close =
     py_tail num_days (series_sub_tail (macd_series close) (signal_line num_days close))"

text \<open>Line 434.\<close>

definition change :: "int \<Rightarrow> real list \<Rightarrow> fl list" where
  "change num_days close = py_tail num_days (diff close)"

text \<open>Lines 441 to 446.\<close>

definition rsi :: "int \<Rightarrow> real list \<Rightarrow> fl list" where
  "rsi num_days close =
     (let gain = map gain_of (change num_days close);
          loss = map loss_of (change num_days close);
          avg_gain = py_tail num_days (rolling_mean 14 None gain);
          avg_loss = py_tail num_days (rolling_mean 14 None loss);
          relative_strength = series_div avg_gain avg_loss
      in map rsi_of relative_strength)"

text \<open>Lines 449 to 451.\<close>

definition trama :: "int \<Rightarrow> real list \<Rightarrow> fl list" where
  "trama num_days close =
     (let volatility = py_tail num_days (map fabs (diff close));
          tr = py_tail num_days (rolling_mean 14 None (map Fin close))
      in series_add tr (map (\<lambda>v. fmul v (Fin (1 / 10))) volatility))"

text \<open>Lines 484 to 490: the loop of the earnings feature.  \<open>end_date\<close> is the
  string, \<open>date\<close> the \<^verbatim>\<open>datetime\<close> computed once before the loop; the loop
  variable is not read.\<close>

definition earning_diffs ::
  "pydate list \<Rightarrow> real list \<Rightarrow> int \<Rightarrow> int \<Rightarrow> real \<Rightarrow> real \<Rightarrow> error + fl list" where
  "earning_diffs earnings_dates earnings_diff end_date num_days low d =
     (let date = minus_days (strptime end_date) num_days in
      collect
        (\<lambda>i. if DStr end_date \<notin> set earnings_dates then Inr (Fin 0)
              else (case py_index earnings_dates date of
                      None \<Rightarrow> Inl ValueError
                    | Some j \<Rightarrow>
                        (case py_get earnings_diff j of
                           Inl e \<Rightarrow> Inl e
                         | Inr v \<Rightarrow>
                             if d = 0 then Inl ZeroDivisionError
                             else Inr (Fin ((v - low) / d)))))
        [0..<nat num_days])"

text \<open>Lines 472 to 490.\<close>

definition earnings_columns ::
  "ext \<Rightarrow> string \<Rightarrow> int \<Rightarrow> string list \<Rightarrow> scaler \<Rightarrow> int \<Rightarrow> stock_dict
     \<Rightarrow> error + stock_dict" where
  "earnings_columns x symbol end_date keys scaler_data num_days d =
     (if ''earning diffs'' \<in> set keys then
        (case map_of scaler_data ''earning diffs'' of
           None \<Rightarrow> Inl KeyError
         | Some (low, df) \<Rightarrow>
             (case earning_diffs (fst (get_earnings_history x symbol))
                     (snd (get_earnings_history x symbol)) end_date num_days low df of
                Inl e \<Rightarrow> Inl e
              | Inr vs \<Rightarrow>
                  Inr (put ''earning diffs'' (PyList vs) (put ''earnings dates'' (PyList []) d))))
      else Inr d)"

text \<open>Lines 492 to 501: the scaling loop.\<close>

fun scale_loop :: "ext \<Rightarrow> scaler \<Rightarrow> string list \<Rightarrow> stock_dict \<Rightarrow> error + stock_dict" where
  "scale_loop x scaler_data [] d = Inr d"
| "scale_loop x scaler_data (column # rest) d =
     (if column \<in> set (excluded_values x) then scale_loop x scaler_data rest d
      else (case map_of scaler_data column of
              None \<Rightarrow> Inl KeyError
            | Some (low, df) \<Rightarrow>
                (case map_of d column of
                   None \<Rightarrow> Inl KeyError
                 | Some (PyList vs) \<Rightarrow> Inl TypeError
                 | Some (Series vs) \<Rightarrow>
                     scale_loop x scaler_data rest
                       (put column (Series (scale_series low df vs)) d))))"

text \<open>Lines 408 to 471: the columns before scaling.\<close>

definition derived_columns :: "ext \<Rightarrow> string list \<Rightarrow> frame \<Rightarrow> int \<Rightarrow> stock_dict" where
  "derived_columns x information_keys cached_info num_days =
     (let close = Close cached_info;
          ema12 = ema_series 12 close;
          ema26 = ema_series 26 close;
          macd = macd_series close;
          sig = signal_line num_days close;
          d0 = put ''Close'' (Series (py_tail num_days (map Fin close))) [];
          d1 = put_if information_keys ''12-day EMA'' (Series (py_tail num_days ema12)) d0;
          d2 = put_if information_keys ''26-day EMA'' (Series (py_tail num_days ema26)) d1;
          d3 = put_if information_keys ''MACD'' (Series (py_tail num_days macd)) d2;
          d4 = put_if information_keys ''Signal Line'' (Series sig) d3;
          d5 = put_if information_keys ''Histogram'' (Series (histogram num_days close)) d4;
          d6 = put_if information_keys ''200-day EMA''
                 (Series (py_tail num_days (ema_series 200 close))) d5;
          ch = change num_days close;
          d7 = put_if information_keys ''Change'' (Series (py_tail num_days ch)) d6;
          d8 = put_if information_keys ''Momentum''
                 (Series (py_tail num_days (rolling_sum 10 (Some 1) ch))) d7;
          d9 = put_if information_keys ''RSI'' (Series (rsi num_days close)) d8;
          d10 = put_if information_keys ''TRAMA'' (Series (trama num_days close)) d9;
          d11 = put_if information_keys ''gradual-liquidity spike''
                  (Series (py_tail num_days (liquidity_gradual x (Volume cached_info)))) d10;
          d12 = put_if information_keys ''3-liquidity spike''
                  (Series (py_tail num_days (liquidity_sharp x (Volume cached_info)))) d11;
          d13 = put_if information_keys ''momentum_oscillator''
                  (Series (py_tail num_days (calculate_momentum_oscillator x close))) d12;
          d14 = put_if information_keys ''ema_flips''
                  (Series (process_flips x (py_tail num_days ema12) (py_tail num_days ema26))) d13;
          d15 = put_if information_keys ''signal_flips''
                  (Series (process_flips x (py_tail num_days macd) (py_tail num_days sig))) d14
      in d15)"

definition indicators_past_num_days ::
  "ext \<Rightarrow> string \<Rightarrow> int \<Rightarrow> string list \<Rightarrow> scaler \<Rightarrow> frame \<Rightarrow> int \<Rightarrow> error + stock_dict" where
  "indicators_past_num_days x symbol end_date information_keys scaler_data cached_info num_days =
     (case earnings_columns x symbol end_date information_keys scaler_data num_days
             (derived_columns x information_keys cached_info num_days) of
        Inl e \<Rightarrow> Inl e
      | Inr d \<Rightarrow> scale_loop x scaler_data information_keys d)"

section \<open>\<^verbatim>\<open>Stock-Bot-Predicter-AI/models.py\<close>: the rolling cache of \<^verbatim>\<open>BaseModel\<close>\<close>

text \<open>The attributes of a \<^verbatim>\<open>BaseModel\<close>.  Dates are day numbers (the strings
  \<^verbatim>\<open>start_date\<close> and \<^verbatim>\<open>end_date\<close>); the wrapped predictor is a function of
  the feature block.  A method returns its outcome together with the object
  as it leaves it, so that what an exception leaves behind is visible.\<close>

record model_state =
  start_date :: int
  end_date :: int
  stock_symbol :: string
  information_keys :: "string list"
  num_days :: int
  scaler_data :: scaler
  model :: "(ndarray \<Rightarrow> real list) option"
  cached :: "ndarray option"
  cached_info :: info

fun col_cells :: "col \<Rightarrow> cell list" where
  "col_cells (Series vs) = map Num vs"
| "col_cells (PyList vs) = map Num vs"

text \<open>\<^verbatim>\<open>d[key]\<close> on a dictionary.\<close>

definition dict_get :: "(string \<times> 'v) list \<Rightarrow> string \<Rightarrow> error + 'v" where
  "dict_get d key = (case map_of d key of None \<Rightarrow> Inl KeyError | Some v \<Rightarrow> Inr v)"

text \<open>Lines 504 to 529.  It returns the new history and assigns nothing.\<close>

definition update_cached_info_online :: "ext \<Rightarrow> model_state \<Rightarrow> error + frame" where
  "update_cached_info_online x s =
     (case cached_info s of
        NoInfo \<Rightarrow>
          (let fetched = history x (stock_symbol s) (end_date s - 280) (end_date s)
           in if length fetched = 0 then Inl ConnectionError else Inr fetched)
      | Frame f \<Rightarrow>
          (let day_info = history x (stock_symbol s) (end_date s - 1) (end_date s)
           in if length day_info = 0 then Inl ConnectionError
              else if f = [] then Inl IndexError
              else Inr (tl f @ day_info))
      | Snap sn \<Rightarrow>
          (let day_info = history x (stock_symbol s) (end_date s - 1) (end_date s)
           in if length day_info = 0 then Inl ConnectionError else Inl AttributeError))"

text \<open>Lines 531 to 541.  \<^verbatim>\<open>indicators_past_num_days\<close> reads
  \<^verbatim>\<open>cached_info['Close'].iloc\<close>: a \<^verbatim>\<open>TypeError\<close> on \<^verbatim>\<open>None\<close>, and on the
  snapshot dictionary a \<^verbatim>\<open>KeyError\<close> or, its lists having no \<^verbatim>\<open>iloc\<close>, an
  \<^verbatim>\<open>AttributeError\<close>.\<close>

definition update_cached_online :: "ext \<Rightarrow> model_state \<Rightarrow> error option \<times> model_state" where
  "update_cached_online x s =
     (case cached_info s of
        NoInfo \<Rightarrow> (Some TypeError, s)
      | Snap sn \<Rightarrow>
          (case dict_get sn ''Close'' of
             Inl e \<Rightarrow> (Some e, s)
           | Inr c \<Rightarrow> (Some AttributeError, s))
      | Frame f \<Rightarrow>
          (case indicators_past_num_days x (stock_symbol s) (end_date s)
                  (information_keys s) (scaler_data s) f (num_days s) of
             Inl e \<Rightarrow> (Some e, s)
           | Inr d \<Rightarrow>
               (case collect (dict_get d) (information_keys s) of
                  Inl e \<Rightarrow> (Some e, s)
                | Inr cs \<Rightarrow>
                    (case np_transpose (map col_cells (filter (is_floats x) cs)) of
                       Inl e \<Rightarrow> (Some e, s)
                     | Inr a \<Rightarrow> (None, s\<lparr>cached := Some a\<rparr>)))))"

text \<open>Lines 550 to 570: the first population from \<^verbatim>\<open>info.json\<close>.\<close>

definition populate_offline :: "ext \<Rightarrow> model_state \<Rightarrow> error option \<times> model_state" where
  "populate_offline x s =
     (case info_json x (stock_symbol s) of
        None \<Rightarrow> (Some FileNotFoundError, s)
      | Some loaded \<Rightarrow>
          (case dict_get loaded ''Dates'' of
             Inl e \<Rightarrow> (Some e, s)
           | Inr dates \<Rightarrow>
               if Day (start_date s) \<notin> set dates then (Some ValueError, s)
               else if Day (end_date s) \<notin> set dates then (Some ValueError, s)
               else
                 (case py_index dates (Day (end_date s)) of
                    None \<Rightarrow> (Some ValueError, s)
                  | Some end_index \<Rightarrow>
                      (case collect
                              (\<lambda>key. case dict_get loaded key of
                                        Inl e \<Rightarrow> Inl e
                                      | Inr c \<Rightarrow>
                                          Inr (py_slice (int end_index - num_days s)
                                                 (int end_index) c))
                              (filter (\<lambda>key. key \<notin> set (excluded_values x))
                                 (information_keys s)) of
                         Inl e \<Rightarrow> (Some e, s)
                       | Inr cols \<Rightarrow>
                           (case np_transpose cols of
                              Inl e \<Rightarrow> (Some e, s)
                            | Inr a \<Rightarrow>
                                (if array_len a = 0
                                 then (Some RuntimeError,
                                       s\<lparr>cached := Some a, cached_info := Snap loaded\<rparr>)
                                 else (None,
                                       s\<lparr>cached := Some a, cached_info := Snap loaded\<rparr>)))))))"

text \<open>\<^verbatim>\<open>self.cached_info["Dates"]\<close> in the advance.\<close>

fun info_dates :: "info \<Rightarrow> error + cell list" where
  "info_dates NoInfo = Inl TypeError"
| "info_dates (Frame f) = Inl KeyError"
| "info_dates (Snap sn) = dict_get sn ''Dates''"

fun info_col :: "info \<Rightarrow> string \<Rightarrow> error + cell list" where
  "info_col NoInfo key = Inl TypeError"
| "info_col (Frame f) key = Inl KeyError"
| "info_col (Snap sn) key = dict_get sn key"

text \<open>Lines 571 to 576: the advance by one day.\<close>

definition advance_offline :: "model_state \<Rightarrow> error option \<times> model_state" where
  "advance_offline s =
     (case cached s of
        None \<Rightarrow> (Some TypeError, s)
      | Some a \<Rightarrow>
          if array_len a = 0 then (None, s)
          else
            (case info_dates (cached_info s) of
               Inl e \<Rightarrow> (Some e, s)
             | Inr dates \<Rightarrow>
                 (case py_index dates (Day (end_date s)) of
                    None \<Rightarrow> (Some ValueError, s)
                  | Some i_end \<Rightarrow>
                      (case collect
                              (\<lambda>key. case info_col (cached_info s) key of
                                        Inl e \<Rightarrow> Inl e
                                      | Inr c \<Rightarrow> py_get c i_end)
                              (information_keys s) of
                         Inl e \<Rightarrow> (Some e, s)
                       | Inr day_data \<Rightarrow>
                           (case drop_first_append a day_data of
                              Inl e \<Rightarrow> (Some e, s)
                            | Inr a' \<Rightarrow> (None, s\<lparr>cached := Some a'\<rparr>))))))"

text \<open>\<^verbatim>\<open>not self.cached_info\<close>: true on \<^verbatim>\<open>None\<close> and on an empty dictionary;
  the truth value of a \<^verbatim>\<open>DataFrame\<close> raises \<^verbatim>\<open>ValueError\<close>.\<close>

fun not_info :: "info \<Rightarrow> error + bool" where
  "not_info NoInfo = Inr True"
| "not_info (Snap sn) = Inr (sn = [])"
| "not_info (Frame f) = Inl ValueError"

text \<open>Lines 543 to 576.\<close>

definition update_cached_offline :: "ext \<Rightarrow> model_state \<Rightarrow> error option \<times> model_state" where
  "update_cached_offline x s =
     (case not_info (cached_info s) of
        Inl e \<Rightarrow> (Some e, s)
      | Inr True \<Rightarrow>
          (case populate_offline x s of
             (Some e, s') \<Rightarrow> (Some e, s')
           | (None, s') \<Rightarrow> advance_offline s')
      | Inr False \<Rightarrow> advance_offline s)"

text \<open>A call of a method: Python raises \<^verbatim>\<open>TypeError\<close> when the number of
  positional arguments is not the number of parameters that the \<^verbatim>\<open>def\<close>
  declares after \<^verbatim>\<open>self\<close>.\<close>

definition call_method :: "nat \<Rightarrow> 'a list \<Rightarrow> error + 'r \<Rightarrow> error + 'r" where
  "call_method params args body = (if length args = params then body else Inl TypeError)"

text \<open>\<^verbatim>\<open>type(self.cached_info) is Dict\<close>: \<^verbatim>\<open>Dict\<close> is \<^verbatim>\<open>typing.Dict\<close>, which is
  the type of no object (a dictionary has type \<^verbatim>\<open>dict\<close>).\<close>

definition type_is_typing_Dict :: "info \<Rightarrow> bool" where
  "type_is_typing_Dict ci = False"

text \<open>Lines 603 to 606: the body of the \<^verbatim>\<open>try\<close>.  \<^verbatim>\<open>update_cached_info_online\<close>
  is declared with \<^verbatim>\<open>self\<close> alone and called with \<^verbatim>\<open>self.information_keys\<close>.\<close>

definition try_online :: "ext \<Rightarrow> model_state \<Rightarrow> error option \<times> model_state" where
  "try_online x s =
     (if type_is_typing_Dict (cached_info s) then (Some ConnectionError, s)
      else
        (case call_method 0 [information_keys s] (update_cached_info_online x s) of
           Inl e \<Rightarrow> (Some e, s)
         | Inr f \<Rightarrow> update_cached_online x (s\<lparr>cached_info := Frame f\<rparr>)))"

text \<open>Lines 607 to 616: the handler of \<^verbatim>\<open>ConnectionError\<close>.\<close>

definition offline_fallback :: "ext \<Rightarrow> model_state \<Rightarrow> error option \<times> model_state" where
  "offline_fallback x s =
     (let s1 = (case cached_info s of Frame f \<Rightarrow> s\<lparr>cached_info := NoInfo\<rparr> | _ \<Rightarrow> s)
      in case update_cached_offline x s1 of
           (Some ValueError, s2) \<Rightarrow> (Some RuntimeError, s2)
         | (r, s2) \<Rightarrow> (r, s2))"

text \<open>\<^verbatim>\<open>np.reshape(self.cached, (1, 60, self.cached.shape[1]))\<close>.\<close>

fun reshape_1_60 :: "ndarray \<Rightarrow> error + ndarray" where
  "reshape_1_60 (Vec xs) = Inl IndexError"
| "reshape_1_60 (Mat k rws) =
     (if k = 0 then Inr (Cube [replicate 60 []])
      else if length rws = 60 then Inr (Cube [rws])
      else Inl ValueError)"
| "reshape_1_60 (Cube bs) =
     (if list_all (\<lambda>b. list_all (\<lambda>r. length r = 60) b) bs then Inr (Cube bs)
      else Inl ValueError)"

text \<open>Lines 618 to 631.\<close>

definition finish_today :: "model_state \<Rightarrow> (error + ndarray option) \<times> model_state" where
  "finish_today s =
     (case cached s of
        None \<Rightarrow> (Inl RuntimeError, s)
      | Some a \<Rightarrow>
          (let s1 = s\<lparr>start_date := start_date s + 1, end_date := end_date s + 1\<rparr>
           in case reshape_1_60 a of
                Inl e \<Rightarrow> (Inl e, s1)
              | Inr b \<Rightarrow> (Inr (Some b), s1\<lparr>cached := Some b\<rparr>)))"

text \<open>Lines 578 to 631.  Only \<^verbatim>\<open>ConnectionError\<close> enters the handler; every
  other exception of the \<^verbatim>\<open>try\<close> body leaves the method at once.\<close>

definition get_info_today :: "ext \<Rightarrow> model_state \<Rightarrow> (error + ndarray option) \<times> model_state" where
  "get_info_today x s =
     (if \<not> on_schedule x (end_date s) then (Inr None, s)
      else
        (case try_online x s of
           (None, s1) \<Rightarrow> finish_today s1
         | (Some ConnectionError, s1) \<Rightarrow>
             (case offline_fallback x s1 of
                (None, s2) \<Rightarrow> finish_today s2
              | (Some e, s2) \<Rightarrow> (Inl e, s2))
         | (Some e, s1) \<Rightarrow> (Inl e, s1)))"

text \<open>Lines 668 to 676.\<close>

definition predict ::
  "ext \<Rightarrow> model_state \<Rightarrow> ndarray option \<Rightarrow> (error + real list) \<times> model_state" where
  "predict x s info =
     (case (case info of None \<Rightarrow> get_info_today x s | Some i \<Rightarrow> (Inr (Some i), s)) of
        (Inl e, s1) \<Rightarrow> (Inl e, s1)
      | (Inr None, s1) \<Rightarrow> (Inl RuntimeError, s1)
      | (Inr (Some i), s1) \<Rightarrow>
          (case model s1 of
             Some m \<Rightarrow> (Inr (m i), s1)
           | None \<Rightarrow> (Inl LookupError, s1)))"

section \<open>\<^verbatim>\<open>Models.py\<close>: the older \<^verbatim>\<open>BaseModel\<close>\<close>

text \<open>
  The names that the module binds before its class (lines 1 to 14, its only
  imports).  \<^verbatim>\<open>yf\<close>, \<^verbatim>\<open>datetime\<close> and \<^verbatim>\<open>timedelta\<close>, which \<^verbatim>\<open>getInfoToday\<close>
  reads, are not among them, and reading a global name that is not bound
  raises \<^verbatim>\<open>NameError\<close>.
\<close>

definition old_module_names :: "string list" where
  "old_module_names =
     [''json'', ''time'', ''Optional'', ''List'', ''Dict'', ''mean_squared_error'',
      ''Sequential'', ''load_model'', ''LSTM'', ''Dense'', ''get_relavant_values'',
      ''create_sequences'', ''process_flips'', ''calculate_momentum_oscillator'',
      ''get_liquidity_spikes'', ''get_earnings_history'', ''warn'', ''np'', ''pd'']"

definition read_global :: "string list \<Rightarrow> string \<Rightarrow> error option" where
  "read_global bound name = (if name \<in> set bound then None else Some NameError)"

text \<open>The \<^verbatim>\<open>info\<close> given to \<^verbatim>\<open>predict\<close>: a Python list (the annotation, and what
  \<^verbatim>\<open>getInfoToday\<close> returns) or a numpy array (what the wrapped model is fed).\<close>

datatype old_info = InfoList "fl list list" | InfoArray ndarray

fun cells_of :: "ndarray \<Rightarrow> cell list" where
  "cells_of (Vec xs) = xs"
| "cells_of (Mat k rws) = concat rws"
| "cells_of (Cube bs) = concat (concat bs)"

text \<open>The truth value of one cell: a number other than zero (NaN and the
  infinities too), a date string.\<close>

fun cell_truth :: "cell \<Rightarrow> bool" where
  "cell_truth (Num (Fin v)) = (v \<noteq> 0)"
| "cell_truth (Num PInf) = True"
| "cell_truth (Num NInf) = True"
| "cell_truth (Num NaN) = True"
| "cell_truth (Day d) = True"

text \<open>\<^verbatim>\<open>not info\<close>: true on the empty list; on an array, true when it is empty,
  the negated truth value of its cell when it has one, and a \<^verbatim>\<open>ValueError\<close>
  (the truth value of an array with more than one element is ambiguous)
  otherwise.  (The empty array is false in the numpy of the program's time;
  later versions raise on it as well.)\<close>

fun not_old_info :: "old_info \<Rightarrow> error + bool" where
  "not_old_info (InfoList l) = Inr (l = [])"
| "not_old_info (InfoArray a) =
     (case cells_of a of
        [] \<Rightarrow> Inr True
      | [c] \<Rightarrow> Inr (\<not> cell_truth c)
      | c # c' # cs \<Rightarrow> Inl ValueError)"

text \<open>Its attributes.  \<^verbatim>\<open>getInfoToday\<close> and \<^verbatim>\<open>predict\<close> assign none of them.\<close>

record old_state =
  old_start_date :: int
  old_end_date :: int
  old_stock_symbol :: string
  old_information_keys :: "string list"
  old_num_days :: int
  old_cached :: "frame option"
  old_model :: "(old_info \<Rightarrow> real list) option"
  old_data :: "(string \<times> real list) list option"

text \<open>Lines 192 to 206 of \<^verbatim>\<open>getInfoToday\<close>.  The signal line is a rolling mean
  without \<^verbatim>\<open>min_periods\<close>, over the last 60 cells of the MACD.\<close>

definition old_ema12 :: "real list \<Rightarrow> fl list" where
  "old_ema12 close = py_tail 60 (ema_series 12 close)"

definition old_ema26 :: "real list \<Rightarrow> fl list" where
  "old_ema26 close = py_tail 60 (ema_series 26 close)"

definition old_macd :: "real list \<Rightarrow> fl list" where
  "old_macd close = series_sub (old_ema12 close) (old_ema26 close)"

definition old_signal_line :: "real list \<Rightarrow> fl list" where
  "old_signal_line close = py_tail 60 (rolling_mean 9 None (old_macd close))"

definition old_histogram :: "real list \<Rightarrow> fl list" where
  "old_histogram close = series_sub (old_macd close) (old_signal_line close)"

text \<open>Lines 212 to 221.\<close>

definition old_change :: "real list \<Rightarrow> fl list" where
  "old_change close = py_tail 60 (diff close)"

definition old_avg_gain :: "real list \<Rightarrow> fl list" where
  "old_avg_gain close =
     py_tail 60 (rolling_mean 14 (Some 1) (map gain_of (old_change close)))"

definition old_avg_loss :: "real list \<Rightarrow> fl list" where
  "old_avg_loss close =
     py_tail 60 (rolling_mean 14 (Some 1) (map loss_of (old_change close)))"

definition old_rs :: "real list \<Rightarrow> fl list" where
  "old_rs close = series_div (old_avg_gain close) (old_avg_loss close)"

definition old_rsi :: "real list \<Rightarrow> fl list" where
  "old_rsi close = map rsi_of (old_rs close)"

text \<open>Lines 224 to 226.\<close>

definition old_trama :: "nat \<Rightarrow> real list \<Rightarrow> fl list" where
  "old_trama period close =
     (let volatility = py_tail 60 (map fabs (diff close));
          tr = py_tail 60 (rolling_mean period None (map Fin close))
      in series_add tr (map (\<lambda>v. fmul v (Fin (1 / 10))) volatility))"

text \<open>Lines 243 to 258: the earnings feature.  Here \<^verbatim>\<open>end_date\<close> (\<open>end_day\<close>) is the
  \<^verbatim>\<open>datetime\<close> and the dates of the loop are strings.\<close>

definition old_all_dates :: "int \<Rightarrow> pydate list" where
  "old_all_dates end_day =
     map (\<lambda>i. strftime (minus_days (strptime end_day) (int i + 1))) [0..<3]"

definition old_earnings_diff :: "pydate list \<Rightarrow> real list \<Rightarrow> int \<Rightarrow> error + fl list" where
  "old_earnings_diff earnings_dates earnings_diff end_day =
     collect
       (\<lambda>date. if strptime end_day \<notin> set earnings_dates then Inr (Fin 0)
               else (case py_index earnings_dates date of
                       None \<Rightarrow> Inl ValueError
                     | Some j \<Rightarrow>
                         (case py_get earnings_diff j of
                            Inl e \<Rightarrow> Inl e
                          | Inr v \<Rightarrow> Inr (Fin v))))
       (old_all_dates end_day)"

text \<open>Lines 189 to 240: the dictionary before the earnings column.  The flips
  are what \<^verbatim>\<open>process_flips\<close> returns, a plain sequence (the newer file wraps
  it into a series).\<close>

definition old_columns :: "ext \<Rightarrow> nat \<Rightarrow> int \<Rightarrow> frame \<Rightarrow> stock_dict" where
  "old_columns x period n_days cached_data =
     (let close = Close cached_data;
          ch = old_change close
      in [(''Close'', Series (map Fin close)),
          (''12-day EMA'', Series (old_ema12 close)),
          (''26-day EMA'', Series (old_ema26 close)),
          (''MACD'', Series (old_macd close)),
          (''Signal Line'', Series (old_signal_line close)),
          (''Histogram'', Series (old_histogram close)),
          (''200-day EMA'', Series (py_tail 60 (ema_series 200 close))),
          (''Change'', Series ch),
          (''Momentum'', Series (py_tail 60 (rolling_sum 10 (Some 1) ch))),
          (''Gain'', Series (map gain_of ch)),
          (''Loss'', Series (map loss_of ch)),
          (''Avg Gain'', Series (old_avg_gain close)),
          (''Avg Loss'', Series (old_avg_loss close)),
          (''RS'', Series (old_rs close)),
          (''RSI'', Series (old_rsi close)),
          (''TRAMA'', Series (old_trama period close)),
          (''gradual-liquidity spike'',
             Series (py_tail 60 (liquidity_gradual x (Volume cached_data)))),
          (''3-liquidity spike'',
             Series (py_tail 60 (liquidity_sharp x (Volume cached_data)))),
          (''momentum_oscillator'',
             Series (py_tail 60 (calculate_momentum_oscillator x close))),
          (''flips'',
             PyList (process_flips x (py_tail n_days (ema_series 12 close))
                       (py_tail n_days (ema_series 26 close))))])"

text \<open>Python's \<^verbatim>\<open>min\<close> and \<^verbatim>\<open>max\<close> of a list; \<^verbatim>\<open>ValueError\<close> on the empty list.\<close>

fun py_min :: "real list \<Rightarrow> error + real" where
  "py_min [] = Inl ValueError"
| "py_min (v # vs) = Inr (fold min vs v)"

fun py_max :: "real list \<Rightarrow> error + real" where
  "py_max [] = Inl ValueError"
| "py_max (v # vs) = Inr (fold max vs v)"

text \<open>Lines 266 to 268: \<^verbatim>\<open>(column_values - low) / (high - low)\<close> with the bounds
  of the stored sample.\<close>

definition old_scale_column :: "real list \<Rightarrow> fl list \<Rightarrow> error + fl list" where
  "old_scale_column sample vs =
     (case py_min sample of
        Inl e \<Rightarrow> Inl e
      | Inr low \<Rightarrow>
          (case py_max sample of
             Inl e \<Rightarrow> Inl e
           | Inr high \<Rightarrow> Inr (map (\<lambda>v. fdiv (fsub v (Fin low)) (Fin (high - low))) vs)))"

definition old_excluded_values :: "string list" where
  "old_excluded_values = [''Date'', ''earnings diff'', ''earnings dates'']"

text \<open>Lines 263 to 269: the scaling loop.  \<^verbatim>\<open>self.data\<close> is \<^verbatim>\<open>None\<close> until the
  model is trained or loaded, and subscripting \<^verbatim>\<open>None\<close> raises \<^verbatim>\<open>TypeError\<close>.\<close>

fun old_scale_loop ::
  "(string \<times> real list) list option \<Rightarrow> string list \<Rightarrow> stock_dict \<Rightarrow> error + stock_dict" where
  "old_scale_loop data [] d = Inr d"
| "old_scale_loop data (column # rest) d =
     (if column \<in> set old_excluded_values then old_scale_loop data rest d
      else (case data of
              None \<Rightarrow> Inl TypeError
            | Some dt \<Rightarrow>
                (case dict_get dt column of
                   Inl e \<Rightarrow> Inl e
                 | Inr sample \<Rightarrow>
                     (case py_min sample of
                        Inl e \<Rightarrow> Inl e
                      | Inr low \<Rightarrow>
                          (case dict_get d column of
                             Inl e \<Rightarrow> Inl e
                           | Inr (PyList vs) \<Rightarrow> Inl TypeError
                           | Inr (Series vs) \<Rightarrow>
                               (case old_scale_column sample vs of
                                  Inl e \<Rightarrow> Inl e
                                | Inr scaled \<Rightarrow>
                                    old_scale_loop data rest
                                      (put column (Series scaled) d)))))))"

text \<open>Line 271: \<^verbatim>\<open>stock_data[key].values.tolist()\<close>.\<close>

definition values_tolist :: "stock_dict \<Rightarrow> string \<Rightarrow> error + fl list" where
  "values_tolist d key =
     (case dict_get d key of
        Inl e \<Rightarrow> Inl e
      | Inr (Series vs) \<Rightarrow> Inr vs
      | Inr (PyList vs) \<Rightarrow> Inl AttributeError)"

text \<open>Lines 163 to 271.  Line 178 reads \<^verbatim>\<open>yf\<close>, which the module does not bind:
  every call ends there with \<^verbatim>\<open>NameError\<close>.  What follows is the rest of the
  body as it is written (the truth value of a cached \<^verbatim>\<open>DataFrame\<close> raises
  \<^verbatim>\<open>ValueError\<close>; lines 180 and 185 read \<^verbatim>\<open>datetime\<close>, line 186 \<^verbatim>\<open>timedelta\<close>).\<close>

definition getInfoToday :: "ext \<Rightarrow> old_state \<Rightarrow> nat \<Rightarrow> error + fl list list" where
  "getInfoToday x s period =
     (case read_global old_module_names ''yf'' of
        Some e \<Rightarrow> Inl e
      | None \<Rightarrow>
          (case old_cached s of
             Some f \<Rightarrow> Inl ValueError
           | None \<Rightarrow>
               (case read_global old_module_names ''datetime'' of
                  Some e \<Rightarrow> Inl e
                | None \<Rightarrow>
                    (case read_global old_module_names ''timedelta'' of
                       Some e \<Rightarrow> Inl e
                     | None \<Rightarrow>
                         (let cached_data =
                                history x (old_stock_symbol s) (old_end_date s - 260)
                                  (old_end_date s);
                              d = old_columns x period (old_num_days s) cached_data
                          in case old_earnings_diff
                                    (fst (get_earnings_history x (old_stock_symbol s)))
                                    (snd (get_earnings_history x (old_stock_symbol s)))
                                    (old_end_date s) of
                               Inl e \<Rightarrow> Inl e
                             | Inr ed \<Rightarrow>
                                 (case old_scale_loop (old_data s) (old_information_keys s)
                                         (put ''earnings diff'' (PyList ed) d) of
                                    Inl e \<Rightarrow> Inl e
                                  | Inr scaled \<Rightarrow>
                                      collect (values_tolist scaled)
                                        (old_information_keys s)))))))"

text \<open>Lines 273 to 280.  \<^verbatim>\<open>if not info\<close> sends \<^verbatim>\<open>None\<close>, the empty list and the
  empty array through \<^verbatim>\<open>getInfoToday\<close>, and raises on an array of several
  elements.\<close>

definition old_predict :: "ext \<Rightarrow> old_state \<Rightarrow> old_info option \<Rightarrow> error + real list" where
  "old_predict x s info =
     (case (case info of
              None \<Rightarrow> map_sum id InfoList (getInfoToday x s 14)
            | Some i \<Rightarrow>
                (case not_old_info i of
                   Inl e \<Rightarrow> Inl e
                 | Inr True \<Rightarrow> map_sum id InfoList (getInfoToday x s 14)
                 | Inr False \<Rightarrow> Inr i)) of
        Inl e \<Rightarrow> Inl e
      | Inr i \<Rightarrow>
          (case old_model s of
             Some m \<Rightarrow> Inr (m i)
           | None \<Rightarrow> Inl LookupError))"

section \<open>TRAMA as the specification words it\<close>

text \<open>
  The specification's TRAMA: the rolling mean of Close over 14 periods plus
  0.1 times a rolling aggregate of the absolute first difference over the
  same 14-period window.  The aggregate is a parameter (\<open>roll\<close>: the rolling
  mean or the rolling sum); the code's \<^const>\<open>trama\<close> is compared with it.
\<close>

definition trama_claimed :: "(fl list \<Rightarrow> fl list) \<Rightarrow> int \<Rightarrow> real list \<Rightarrow> fl list" where
  "trama_claimed roll n_days close =
     (let volatility = py_tail n_days (roll (map fabs (diff close)));
          tr = py_tail n_days (rolling_mean 14 None (map Fin close))
      in series_add tr (map (\<lambda>v. fmul v (Fin (1 / 10))) volatility))"

section \<open>Concrete inputs for the evaluations below\<close>

text \<open>Collaborators: a three-day history (days 100 to 102), no earnings
  announcement, and on disk the snapshot of that history, which holds the
  dates and the unscaled columns.\<close>

definition demo_frame :: frame where
  "demo_frame = [(100, 10, 1000), (101, 20, 1000), (102, 15, 1000)]"

text \<open>Modelled from the spec: the persisted snapshot (\<^verbatim>\<open>info.json\<close>, written by
  \<^verbatim>\<open>get_info.py\<close>, which is not among the sources) is a date-indexed table of
  previously computed, unscaled indicator values plus the raw Close.  Only
  the columns read below are built.\<close>

definition snapshot_of :: "frame \<Rightarrow> snapshot" where
  "snapshot_of f =
     [(''Dates'', map (\<lambda>r. Day (fst r)) f),
      (''Close'', map (\<lambda>c. Num (Fin c)) (Close f))]"

definition demo_ext :: ext where
  "demo_ext =
     \<lparr>liquidity_gradual = (\<lambda>v. map (\<lambda>u. Fin 0) v),
      liquidity_sharp = (\<lambda>v. map (\<lambda>u. Fin 0) v),
      calculate_momentum_oscillator = (\<lambda>c. map (\<lambda>u. Fin 0) c),
      process_flips = (\<lambda>a b. map (\<lambda>u. Fin 0) a),
      get_earnings_history = (\<lambda>symbol. ([], [])),
      excluded_values = [''Dates'', ''earnings dates'', ''earning diffs''],
      is_floats = (\<lambda>c. True),
      history = (\<lambda>symbol first_day last_day. demo_frame),
      on_schedule = (\<lambda>d. True),
      info_json = (\<lambda>symbol. Some (snapshot_of demo_frame))\<rparr>"

text \<open>A model on Close alone with a window of two days, before any
  acquisition.\<close>

definition demo_model :: model_state where
  "demo_model =
     \<lparr>start_date = 100, end_date = 102, stock_symbol = ''AAPL'',
      information_keys = [''Close''], num_days = 2,
      scaler_data = [(''Close'', (10, 10))],
      model = None, cached = None, cached_info = NoInfo\<rparr>"

text \<open>The same model with the snapshot loaded and the window of days 100 and
  101.\<close>

definition demo_populated :: model_state where
  "demo_populated =
     demo_model\<lparr>cached := Some (Mat 1 [[Num (Fin 10)], [Num (Fin 20)]]),
                cached_info := Snap (snapshot_of demo_frame)\<rparr>"

text \<open>An instance of the older \<^verbatim>\<open>BaseModel\<close> as its constructor leaves it:
  no model, no data, nothing cached.\<close>

definition demo_old :: old_state where
  "demo_old =
     \<lparr>old_start_date = 100, old_end_date = 102, old_stock_symbol = ''AAPL'',
      old_information_keys = [''Close''], old_num_days = 60,
      old_cached = None, old_model = None, old_data = None\<rparr>"

text \<open>Fifteen closing prices that swing between 0 and 2 and then stay at 2.\<close>

definition demo_wave :: "real list" where
  "demo_wave = [0, 2, 0, 2, 0, 2, 0, 2, 0, 2, 0, 2, 0, 2, 2]"

text \<open>A history with these closing prices on the days 0 to 14.\<close>

definition demo_wave_frame :: frame where
  "demo_wave_frame = map (\<lambda>(i, c). (int i, c, 1000)) (enumerate 0 demo_wave)"

section \<open>The columns of the dictionaries\<close>

text \<open>What \<^verbatim>\<open>stock_data\<close> holds under a key after lines 408 to 471, after the
  scaling loop, and at the end of \<^verbatim>\<open>indicators_past_num_days\<close>.\<close>

lemma map_of_put: "map_of (put k v d) key = (if k = key then Some v else map_of d key)"
  by (simp add: put_def)

lemma map_of_put_if:
  "map_of (put_if keys k v d) key = (if k = key \<and> k \<in> set keys then Some v else map_of d key)"
  by (simp add: put_if_def put_def)

lemma derived_ema12:
  "map_of (derived_columns x keys f n) ''12-day EMA'' =
     (if ''12-day EMA'' \<in> set keys
      then Some (Series (py_tail n (map Fin (ewm_mean 12 (Close f))))) else None)"
  by (simp add: derived_columns_def Let_def map_of_put_if map_of_put ema_series_def)

lemma derived_ema26:
  "map_of (derived_columns x keys f n) ''26-day EMA'' =
     (if ''26-day EMA'' \<in> set keys
      then Some (Series (py_tail n (map Fin (ewm_mean 26 (Close f))))) else None)"
  by (simp add: derived_columns_def Let_def map_of_put_if map_of_put ema_series_def)

lemma derived_ema200:
  "map_of (derived_columns x keys f n) ''200-day EMA'' =
     (if ''200-day EMA'' \<in> set keys
      then Some (Series (py_tail n (map Fin (ewm_mean 200 (Close f))))) else None)"
  by (simp add: derived_columns_def Let_def map_of_put_if map_of_put ema_series_def)

lemma old_ema_columns:
  "map_of (old_columns x period m f) ''12-day EMA''
     = Some (Series (py_tail 60 (map Fin (ewm_mean 12 (Close f)))))"
  "map_of (old_columns x period m f) ''26-day EMA''
     = Some (Series (py_tail 60 (map Fin (ewm_mean 26 (Close f)))))"
  "map_of (old_columns x period m f) ''200-day EMA''
     = Some (Series (py_tail 60 (map Fin (ewm_mean 200 (Close f)))))"
  by (simp_all add: old_columns_def Let_def old_ema12_def old_ema26_def ema_series_def)



lemma scale_loop_untouched:
  assumes "scale_loop x sc keys d = Inr d'"
      and "c \<notin> set keys \<or> c \<in> set (excluded_values x)"
  shows "map_of d' c = map_of d c"
  using assms
proof (induction keys arbitrary: d)
  case Nil
  then show ?case by simp
next
  case (Cons k ks)
  show ?case
  proof (cases "k \<in> set (excluded_values x)")
    case True
    with Cons.prems have "scale_loop x sc ks d = Inr d'" by simp
    moreover from Cons.prems(2) have "c \<notin> set ks \<or> c \<in> set (excluded_values x)" by auto
    ultimately show ?thesis by (rule Cons.IH)
  next
    case False
    with Cons.prems(1) obtain low df vs where
      "map_of sc k = Some (low, df)" "map_of d k = Some (Series vs)"
      and rest: "scale_loop x sc ks (put k (Series (scale_series low df vs)) d) = Inr d'"
      by (auto split: option.splits col.splits)
    from Cons.prems(2) False have ck: "c \<noteq> k" and "c \<notin> set ks \<or> c \<in> set (excluded_values x)"
      by auto
    from Cons.IH [OF rest this(2)] ck show ?thesis by (simp add: map_of_put)
  qed
qed

lemma scale_loop_column:
  assumes "scale_loop x sc keys d = Inr d'" and "distinct keys"
      and "c \<in> set keys" and "c \<notin> set (excluded_values x)"
  shows "\<exists>low df vs. map_of sc c = Some (low, df) \<and> map_of d c = Some (Series vs)
           \<and> map_of d' c = Some (Series (scale_series low df vs))"
  using assms
proof (induction keys arbitrary: d)
  case Nil
  then show ?case by simp
next
  case (Cons k ks)
  show ?case
  proof (cases "k \<in> set (excluded_values x)")
    case True
    with Cons.prems have "scale_loop x sc ks d = Inr d'" "distinct ks" "c \<in> set ks" by auto
    then show ?thesis using Cons.prems(4) by (rule Cons.IH)
  next
    case False
    with Cons.prems(1) obtain low df vs where
      sc: "map_of sc k = Some (low, df)" and dk: "map_of d k = Some (Series vs)"
      and rest: "scale_loop x sc ks (put k (Series (scale_series low df vs)) d) = Inr d'"
      by (auto split: option.splits col.splits)
    show ?thesis
    proof (cases "c = k")
      case True
      with Cons.prems(2) have "c \<notin> set ks \<or> c \<in> set (excluded_values x)" by simp
      from scale_loop_untouched [OF rest this] True sc dk
      show ?thesis by (simp add: map_of_put)
    next
      case False
      with Cons.prems have "distinct ks" "c \<in> set ks" by auto
      from Cons.IH [OF rest this Cons.prems(4)] False
      show ?thesis by (simp add: map_of_put)
    qed
  qed
qed

lemma earnings_columns_other:
  assumes "earnings_columns x symbol e keys sc n d = Inr d1"
      and "key \<noteq> ''earning diffs''" and "key \<noteq> ''earnings dates''"
  shows "map_of d1 key = map_of d key"
  using assms
  by (auto simp add: earnings_columns_def map_of_put split: if_splits option.splits sum.splits)

lemma indicators_column:
  assumes "indicators_past_num_days x symbol e keys sc f n = Inr d'"
      and "distinct keys" and "key \<in> set keys" and "key \<notin> set (excluded_values x)"
      and "key \<noteq> ''earning diffs''" and "key \<noteq> ''earnings dates''"
  shows "\<exists>low df vs. map_of sc key = Some (low, df)
           \<and> map_of (derived_columns x keys f n) key = Some (Series vs)
           \<and> map_of d' key = Some (Series (scale_series low df vs))"
proof -
  from assms(1) obtain d1 where
    e: "earnings_columns x symbol e keys sc n (derived_columns x keys f n) = Inr d1"
    and l: "scale_loop x sc keys d1 = Inr d'"
    by (auto simp add: indicators_past_num_days_def split: sum.splits)
  from scale_loop_column [OF l assms(2,3,4)] earnings_columns_other [OF e assms(5,6)]
  show ?thesis by simp
qed



section \<open>Exponential moving averages\<close>

lemma ewm_from_length: "length (ewm_from a p xs) = length xs"
  by (induction xs arbitrary: p) (simp_all add: Let_def)

lemma ewm_from_step:
  "t < length xs \<Longrightarrow>
     (p # ewm_from a p xs) ! Suc t = (1 - a) * ((p # ewm_from a p xs) ! t) + a * xs ! t"
proof (induction xs arbitrary: p t)
  case Nil
  then show ?case by simp
next
  case (Cons x xs)
  show ?case
  proof (cases t)
    case 0
    then show ?thesis by (simp add: Let_def)
  next
    case (Suc t')
    with Cons.prems have "t' < length xs" by simp
    from Cons.IH [OF this, of "(1 - a) * p + a * x"] Suc
    show ?thesis by (simp add: Let_def)
  qed
qed

lemma ewm_mean_length: "length (ewm_mean sp xs) = length xs"
  by (cases xs) (simp_all add: ewm_mean_def ewm_from_length)

lemma ewm_mean_first: "xs \<noteq> [] \<Longrightarrow> ewm_mean sp xs ! 0 = xs ! 0"
  by (cases xs) (simp_all add: ewm_mean_def)

lemma ewm_mean_step:
  assumes "1 \<le> t" "t < length xs"
  shows "ewm_mean sp xs ! t =
           2 / (sp + 1) * xs ! t + (1 - 2 / (sp + 1)) * ewm_mean sp xs ! (t - 1)"
proof -
  obtain x rest where xs: "xs = x # rest" using assms by (cases xs) auto
  obtain t' where t: "t = Suc t'" using assms by (cases t) auto
  have "t' < length rest" using assms xs t by simp
  from ewm_from_step [OF this, of x "2 / (sp + 1)"]
  show ?thesis by (simp add: ewm_mean_def xs t algebra_simps)
qed

text \<open>
  Claim C5.  For a non-empty Close series and each of the spans 12, 26 and
  200, the EMA column that the code computes (\<^verbatim>\<open>ewm(span=s,
  adjust=False).mean()\<close> of Close under the keys \<^verbatim>\<open>12-day EMA\<close>, \<^verbatim>\<open>26-day EMA\<close> and
  \<^verbatim>\<open>200-day EMA\<close>: trimmed to the trailing \<^verbatim>\<open>num_days\<close> rows and then scaled in
  \<^verbatim>\<open>indicators_past_num_days\<close>, trimmed to 60 rows in the body of
  \<^verbatim>\<open>getInfoToday\<close>) is the trailing part of one series \<open>ema\<close> over the whole
  of Close with \<open>ema[0] = close[0]\<close> and, at every later position \<open>t\<close>,
  \<open>ema[t] = alpha * close[t] + (1 - alpha) * ema[t-1]\<close> for
  \<open>alpha = 2 / (s + 1)\<close>.
\<close>

theorem ema_columns_recurrence:
  assumes "Close f \<noteq> []"
      and "(key, sp) \<in> {(''12-day EMA'', 12), (''26-day EMA'', 26), (''200-day EMA'', 200)}"
      and "key \<in> set keys"
  shows "\<exists>ema.
           map_of (derived_columns x keys f n) key = Some (Series (py_tail n (map Fin ema)))
         \<and> map_of (old_columns x period m f) key = Some (Series (py_tail 60 (map Fin ema)))
         \<and> (\<forall>d' low df.
               indicators_past_num_days x symbol e keys sc f n = Inr d' \<and> distinct keys
               \<and> key \<notin> set (excluded_values x) \<and> map_of sc key = Some (low, df)
               \<longrightarrow> map_of d' key = Some (Series (scale_series low df (py_tail n (map Fin ema)))))
         \<and> length ema = length (Close f)
         \<and> ema ! 0 = Close f ! 0
         \<and> (\<forall>t. 1 \<le> t \<and> t < length (Close f) \<longrightarrow>
               ema ! t = 2 / (sp + 1) * Close f ! t + (1 - 2 / (sp + 1)) * ema ! (t - 1))"
proof -
  let ?ema = "ewm_mean sp (Close f)"
  have cols: "map_of (derived_columns x keys f n) key = Some (Series (py_tail n (map Fin ?ema)))"
             "map_of (old_columns x period m f) key = Some (Series (py_tail 60 (map Fin ?ema)))"
    using assms(2,3) by (auto simp add: derived_ema12 derived_ema26 derived_ema200 old_ema_columns)
  have names: "key \<noteq> ''earning diffs''" "key \<noteq> ''earnings dates''"
    using assms(2) by auto
  have scaled: "map_of d' key = Some (Series (scale_series low df (py_tail n (map Fin ?ema))))"
    if "indicators_past_num_days x symbol e keys sc f n = Inr d'" "distinct keys"
       "key \<notin> set (excluded_values x)" "map_of sc key = Some (low, df)" for d' low df
    using indicators_column [OF that(1,2) assms(3) that(3) names] that(4) cols(1) by auto
  have rec: "\<forall>t. 1 \<le> t \<and> t < length (Close f) \<longrightarrow>
               ?ema ! t = 2 / (sp + 1) * Close f ! t + (1 - 2 / (sp + 1)) * ?ema ! (t - 1)"
    using ewm_mean_step [of _ "Close f" sp] by simp
  show ?thesis
    using cols scaled rec ewm_mean_length [of sp "Close f"] ewm_mean_first [OF assms(1), of sp]
    by (intro exI [of _ ?ema]) blast
qed


theorem ema_columns_recurrence_witness:
  "\<exists>ema. map_of (derived_columns demo_ext [''Close'', ''12-day EMA''] demo_frame 2) ''12-day EMA''
            = Some (Series (py_tail 2 (map Fin ema)))
         \<and> length ema = 3 \<and> ema ! 0 = 10 \<and> ema ! 1 = 150 / 13"
proof -
  have c: "Close demo_frame = [10, 20, 15]" by (simp add: Close_def demo_frame_def)
  have h1: "Close demo_frame \<noteq> []" by (simp add: c)
  have h2: "(''12-day EMA'', 12 :: real)
              \<in> {(''12-day EMA'', 12), (''26-day EMA'', 26), (''200-day EMA'', 200)}"
    by simp
  have h3: "''12-day EMA'' \<in> set [''Close'', ''12-day EMA'']" by simp
  from ema_columns_recurrence [OF h1 h2 h3, of demo_ext 2]
  obtain ema where
    col: "map_of (derived_columns demo_ext [''Close'', ''12-day EMA''] demo_frame 2) ''12-day EMA''
            = Some (Series (py_tail 2 (map Fin ema)))"
    and len: "length ema = length (Close demo_frame)"
    and first: "ema ! 0 = Close demo_frame ! 0"
    and step: "\<forall>t. 1 \<le> t \<and> t < length (Close demo_frame) \<longrightarrow>
               ema ! t = 2 / (12 + 1) * Close demo_frame ! t
                         + (1 - 2 / (12 + 1)) * ema ! (t - 1)"
    by blast
  from step have "ema ! 1 = 2 / (12 + 1) * Close demo_frame ! 1
                         + (1 - 2 / (12 + 1)) * ema ! (1 - 1)"
    by (simp add: c)
  with first have "ema ! 1 = 150 / 13" by (simp add: c)
  with col len first show ?thesis by (auto simp add: c)
qed

section \<open>Scaling to the unit interval\<close>







section \<open>The offline advance of the window\<close>

lemma py_index_None: "py_index xs y = None \<longleftrightarrow> y \<notin> set xs"
  by (induction xs) auto

lemma drop_first_append_Mat:
  "drop_first_append (Mat k rws) row = Inr a \<Longrightarrow> a = Mat k (tl rws @ [row])"
  by (simp split: if_splits)

text \<open>
  Claim C2.  An offline advance is atomic.  For a populated window (the
  snapshot is loaded and \<^verbatim>\<open>self.cached\<close> holds \<^verbatim>\<open>num_days\<close> rows, at least one),
  a call of \<^verbatim>\<open>update_cached_offline\<close> that returns leaves the window with its
  oldest row dropped and the snapshot's row of the end date appended, again
  \<^verbatim>\<open>num_days\<close> rows, and changes nothing else; a call that raises leaves the
  object as it was; and a call whose end date is not among the snapshot's
  \<^verbatim>\<open>Dates\<close> raises.
\<close>

theorem offline_advance_atomic:
  assumes "cached_info s = Snap sn" and "sn \<noteq> []"
      and "cached s = Some (Mat k rws)" and "rws \<noteq> []"
      and "int (length rws) = num_days s"
  shows "(\<forall>s'. update_cached_offline x s = (None, s') \<longrightarrow>
            (\<exists>dates i row.
                dict_get sn ''Dates'' = Inr dates
              \<and> py_index dates (Day (end_date s)) = Some i
              \<and> collect (\<lambda>key. case dict_get sn key of Inl e \<Rightarrow> Inl e | Inr c \<Rightarrow> py_get c i)
                    (information_keys s) = Inr row
              \<and> s' = s\<lparr>cached := Some (Mat k (tl rws @ [row]))\<rparr>
              \<and> int (length (tl rws @ [row])) = num_days s))
       \<and> (\<forall>e s'. update_cached_offline x s = (Some e, s') \<longrightarrow> s' = s)
       \<and> (Day (end_date s) \<notin> set (case dict_get sn ''Dates'' of Inl e \<Rightarrow> [] | Inr ds \<Rightarrow> ds) \<longrightarrow>
            (\<exists>e. update_cached_offline x s = (Some e, s)))"
proof -
  have upd: "update_cached_offline x s = advance_offline s"
    using assms(1,2) by (simp add: update_cached_offline_def)
  have len: "int (length (tl rws @ [row])) = num_days s" for row :: "cell list"
    using assms(4,5) by (cases rws) simp_all
  have ok: "\<exists>dates i row.
                dict_get sn ''Dates'' = Inr dates
              \<and> py_index dates (Day (end_date s)) = Some i
              \<and> collect (\<lambda>key. case dict_get sn key of Inl e \<Rightarrow> Inl e | Inr c \<Rightarrow> py_get c i)
                    (information_keys s) = Inr row
              \<and> s' = s\<lparr>cached := Some (Mat k (tl rws @ [row]))\<rparr>"
    if "advance_offline s = (None, s')" for s'
    using that assms(1,3,4)
    by (auto simp add: advance_offline_def split: sum.splits option.splits if_splits)
  have err: "s' = s" if "advance_offline s = (Some e, s')" for e s'
    using that assms(1,3,4)
    by (auto simp add: advance_offline_def split: sum.splits option.splits if_splits)
  have absent: "\<exists>e. advance_offline s = (Some e, s)"
    if "Day (end_date s) \<notin> set (case dict_get sn ''Dates'' of Inl e \<Rightarrow> [] | Inr ds \<Rightarrow> ds)"
  proof (cases "dict_get sn ''Dates''")
    case (Inl e)
    then show ?thesis using assms(1,3,4) by (simp add: advance_offline_def)
  next
    case (Inr ds)
    with that have "py_index ds (Day (end_date s)) = None" by (simp add: py_index_None)
    with Inr show ?thesis using assms(1,3,4) by (simp add: advance_offline_def)
  qed
  show ?thesis using ok err absent len by (simp add: upd)
qed

lemma demo_advance:
  "update_cached_offline demo_ext demo_populated
     = (None, demo_populated\<lparr>cached := Some (Mat 1 [[Num (Fin 20)], [Num (Fin 15)]])\<rparr>)"
  by (simp add: update_cached_offline_def advance_offline_def demo_populated_def
      demo_model_def snapshot_of_def demo_frame_def Close_def dict_get_def py_get_def)


theorem offline_advance_atomic_witness:
  "update_cached_offline demo_ext demo_populated
     = (None, demo_populated\<lparr>cached := Some (Mat 1 [[Num (Fin 20)], [Num (Fin 15)]])\<rparr>)
   \<and> array_len (Mat 1 [[Num (Fin 20)], [Num (Fin 15)]]) = nat (num_days demo_populated)
   \<and> (\<exists>e. update_cached_offline demo_ext (demo_populated\<lparr>end_date := 103\<rparr>)
            = (Some e, demo_populated\<lparr>end_date := 103\<rparr>))"
proof -
  let ?s = "demo_populated\<lparr>end_date := 103\<rparr>"
  let ?sn = "snapshot_of demo_frame"
  have h1: "cached_info ?s = Snap ?sn" by (simp add: demo_populated_def)
  have h2: "?sn \<noteq> []" by (simp add: snapshot_of_def)
  have h3: "cached ?s = Some (Mat 1 [[Num (Fin 10)], [Num (Fin 20)]])"
    by (simp add: demo_populated_def)
  have h4: "[[Num (Fin 10)], [Num (Fin 20)]] \<noteq> []" by simp
  have h5: "int (length [[Num (Fin 10)], [Num (Fin 20)]]) = num_days ?s"
    by (simp add: demo_populated_def demo_model_def)
  have absent: "Day (end_date ?s)
      \<notin> set (case dict_get ?sn ''Dates'' of Inl e \<Rightarrow> [] | Inr ds \<Rightarrow> ds)"
    by (simp add: snapshot_of_def demo_frame_def dict_get_def)
  from offline_advance_atomic [OF h1 h2 h3 h4 h5, of demo_ext] absent
  have "\<exists>e. update_cached_offline demo_ext ?s = (Some e, ?s)" by blast
  moreover have "num_days demo_populated = 2"
    by (simp add: demo_populated_def demo_model_def)
  ultimately show ?thesis using demo_advance by simp
qed

section \<open>The fallback of \<^verbatim>\<open>get_info_today\<close>\<close>

text \<open>On a trading day the call of \<^verbatim>\<open>update_cached_info_online\<close> with one
  argument too many raises \<^verbatim>\<open>TypeError\<close>, which the handler of
  \<^verbatim>\<open>ConnectionError\<close> does not catch: nothing is attempted and nothing
  changes.\<close>

lemma get_info_today_type_error:
  "get_info_today x s =
     (if on_schedule x (end_date s) then (Inl TypeError, s) else (Inr None, s))"
  by (simp add: get_info_today_def try_online_def type_is_typing_Dict_def call_method_def)

text \<open>
  Claim C3.  The claim is that an advance through \<^verbatim>\<open>get_info_today\<close> whose
  online acquisition fails attempts the offline mode before any failure
  reaches the caller.  Evaluated with the network down (the history comes
  back empty, so the online acquisition itself raises \<^verbatim>\<open>ConnectionError\<close>)
  and a snapshot on disk that the offline mode advances from without error:
  \<^verbatim>\<open>get_info_today\<close> raises \<^verbatim>\<open>TypeError\<close> and leaves the object untouched, the
  offline mode never attempted.
\<close>

theorem get_info_today_skips_fallback:
  "update_cached_info_online (demo_ext\<lparr>history := (\<lambda>symbol a b. [])\<rparr>) demo_model
     = Inl ConnectionError
   \<and> update_cached_offline (demo_ext\<lparr>history := (\<lambda>symbol a b. [])\<rparr>) demo_model
     = (None, demo_model\<lparr>cached := Some (Mat 1 [[Num (Fin 20)], [Num (Fin 15)]]),
                          cached_info := Snap (snapshot_of demo_frame)\<rparr>)
   \<and> get_info_today (demo_ext\<lparr>history := (\<lambda>symbol a b. [])\<rparr>) demo_model
     = (Inl TypeError, demo_model)"
proof -
  have "update_cached_info_online (demo_ext\<lparr>history := (\<lambda>symbol a b. [])\<rparr>) demo_model
          = Inl ConnectionError"
    by (simp add: update_cached_info_online_def demo_model_def demo_ext_def)
  moreover have "update_cached_offline (demo_ext\<lparr>history := (\<lambda>symbol a b. [])\<rparr>) demo_model
     = (None, demo_model\<lparr>cached := Some (Mat 1 [[Num (Fin 20)], [Num (Fin 15)]]),
                          cached_info := Snap (snapshot_of demo_frame)\<rparr>)"
    by (simp add: update_cached_offline_def populate_offline_def advance_offline_def
        demo_model_def demo_ext_def snapshot_of_def demo_frame_def Close_def dict_get_def
        py_get_def py_slice_def np_transpose_def)
  moreover have "get_info_today (demo_ext\<lparr>history := (\<lambda>symbol a b. [])\<rparr>) demo_model
     = (Inl TypeError, demo_model)"
    by (simp add: get_info_today_type_error demo_ext_def)
  ultimately show ?thesis by simp
qed

section \<open>Online and offline acquisition of the same window\<close>

text \<open>The model on Close with the scaler (minimum 10, range 10), over the
  history of days 100 to 102 with Close 10, 20, 15 and a window of two days:
  the online path scales, the offline path copies the snapshot's rows.\<close>

lemma demo_online_window:
  "update_cached_online demo_ext (demo_model\<lparr>cached_info := Frame demo_frame\<rparr>)
     = (None, demo_model\<lparr>cached_info := Frame demo_frame,
                          cached := Some (Mat 1 [[Num (Fin 1)], [Num (Fin (1 / 2))]])\<rparr>)"
  by (simp add: update_cached_online_def indicators_past_num_days_def earnings_columns_def
      derived_columns_def put_if_def put_def Let_def scale_series_def scale_value_def fsub_def
      demo_model_def demo_ext_def demo_frame_def Close_def dict_get_def py_tail_def
      np_transpose_def)

lemma demo_offline_window:
  "update_cached_offline demo_ext demo_model
     = (None, demo_model\<lparr>cached := Some (Mat 1 [[Num (Fin 20)], [Num (Fin 15)]]),
                          cached_info := Snap (snapshot_of demo_frame)\<rparr>)"
  by (simp add: update_cached_offline_def populate_offline_def advance_offline_def
      demo_model_def demo_ext_def snapshot_of_def demo_frame_def Close_def dict_get_def
      py_get_def py_slice_def np_transpose_def)

text \<open>
  Claim C1.  The claim is that online and offline acquisition of the same
  trailing window give element-wise equal feature windows.  Evaluated on the
  same instrument and the same two trading days (101 and 102):
  \<^verbatim>\<open>update_cached_online\<close> leaves the scaled rows 1.0 and 0.5 in
  \<^verbatim>\<open>self.cached\<close>, \<^verbatim>\<open>update_cached_offline\<close> leaves the snapshot's unscaled rows
  20 and 15.
\<close>

theorem online_offline_windows_differ:
  "cached (snd (update_cached_online demo_ext (demo_model\<lparr>cached_info := Frame demo_frame\<rparr>)))
     = Some (Mat 1 [[Num (Fin 1)], [Num (Fin (1 / 2))]])
   \<and> cached (snd (update_cached_offline demo_ext demo_model))
     = Some (Mat 1 [[Num (Fin 20)], [Num (Fin 15)]])
   \<and> cached (snd (update_cached_online demo_ext (demo_model\<lparr>cached_info := Frame demo_frame\<rparr>)))
     \<noteq> cached (snd (update_cached_offline demo_ext demo_model))"
  by (simp add: demo_online_window demo_offline_window)

section \<open>Rolling means and their minimum periods\<close>

text \<open>A rolling mean without \<^verbatim>\<open>min_periods\<close> is NaN until its window is full.
  So are, for a positive \<^verbatim>\<open>num_days\<close>, the first thirteen cells of the RSI
  column of \<^verbatim>\<open>indicators_past_num_days\<close>, whatever the Close series; and so
  would be the first eight cells of the signal line that line 202 of
  \<^verbatim>\<open>getInfoToday\<close> describes, a line that no call reaches.\<close>

lemma length_map_filter_le: "length (List.map_filter f xs) \<le> length xs"
  by (simp add: List.map_filter_def)

lemma window_obs_length_le: "length (window_obs w xs t) \<le> Suc t"
proof -
  have "length (window_obs w xs t) \<le> length (drop (Suc t - w) (take (Suc t) xs))"
    unfolding window_obs_def by (rule length_map_filter_le)
  also have "\<dots> \<le> Suc t" by simp
  finally show ?thesis .
qed

lemma length_rolling_mean: "length (rolling_mean w mp xs) = length xs"
  by (simp add: rolling_mean_def)

lemma rolling_mean_default_nan:
  assumes "t < length xs" and "Suc t < w"
  shows "rolling_mean w None xs ! t = NaN"
proof -
  have "length (window_obs w xs t) < w"
    using window_obs_length_le [of w xs t] assms(2) by simp
  then show ?thesis
    using assms(1) by (simp add: rolling_mean_def min_periods_of_def Let_def)
qed

lemma length_py_tail_le: "0 < n \<Longrightarrow> length (py_tail n xs) \<le> nat n"
  by (simp add: py_tail_def)

lemma py_tail_short: "0 < n \<Longrightarrow> length xs \<le> nat n \<Longrightarrow> py_tail n xs = xs"
  by (simp add: py_tail_def)

lemma old_signal_line_nan:
  assumes "t < length (old_signal_line close)" and "t < 8"
  shows "old_signal_line close ! t = NaN"
proof -
  have "length (old_ema12 close) \<le> 60"
    using length_py_tail_le [of 60 "ema_series 12 close"] by (simp add: old_ema12_def)
  then have len: "length (old_macd close) \<le> 60"
    by (simp add: old_macd_def series_sub_def)
  have eq: "old_signal_line close = rolling_mean 9 None (old_macd close)"
    unfolding old_signal_line_def
    by (rule py_tail_short) (simp_all add: length_rolling_mean len)
  with assms(1) have "t < length (old_macd close)" by (simp add: length_rolling_mean)
  then show ?thesis using assms(2) by (simp add: eq rolling_mean_default_nan)
qed

lemma rsi_nan:
  assumes "0 < n" and "t < length (rsi n close)" and "t < 13"
  shows "rsi n close ! t = NaN"
proof -
  let ?gain = "map gain_of (change n close)"
  let ?loss = "map loss_of (change n close)"
  have len: "length (change n close) \<le> nat n"
    using length_py_tail_le [OF assms(1)] by (simp add: change_def)
  have g: "py_tail n (rolling_mean 14 None ?gain) = rolling_mean 14 None ?gain"
    by (rule py_tail_short [OF assms(1)]) (simp add: length_rolling_mean len)
  have l: "py_tail n (rolling_mean 14 None ?loss) = rolling_mean 14 None ?loss"
    by (rule py_tail_short [OF assms(1)]) (simp add: length_rolling_mean len)
  have r: "rsi n close = map rsi_of (series_div (rolling_mean 14 None ?gain)
                                        (rolling_mean 14 None ?loss))"
    by (simp add: rsi_def Let_def g l)
  have t: "t < length (change n close)"
    using assms(2) by (simp add: r series_div_def length_rolling_mean)
  then have "rolling_mean 14 None ?gain ! t = NaN"
    using assms(3) by (simp add: rolling_mean_default_nan)
  then show ?thesis using t
    by (simp add: r series_div_def length_rolling_mean rsi_of_def fsub_def)
qed

lemma length_diff: "length (diff xs) = length xs"
  by (cases xs) (simp_all add: diff_def)

lemma diff_nth:
  assumes "0 < j" and "j < length xs"
  shows "diff xs ! j = Fin (xs ! j - xs ! (j - 1))"
proof -
  obtain x rest where xs: "xs = x # rest" using assms(2) by (cases xs) auto
  obtain i where j: "j = Suc i" using assms(1) by (cases j) auto
  have "i < length rest" using assms(2) xs j by simp
  then show ?thesis by (simp add: diff_def xs j)
qed

lemma diff_0: "xs \<noteq> [] \<Longrightarrow> diff xs ! 0 = NaN"
  by (cases xs) (simp_all add: diff_def)

lemma map_filter_fin_of_Fin: "List.map_filter fin_of (map Fin ys) = ys"
  by (induction ys) simp_all

lemma window_obs_Fin:
  "window_obs w (map Fin ys) t = drop (Suc t - w) (take (Suc t) ys)"
  by (simp add: window_obs_def map_filter_fin_of_Fin drop_map take_map)

lemma rolling_mean_nth:
  "t < length xs \<Longrightarrow>
     rolling_mean w mp xs ! t =
       (let obs = window_obs w xs t in
        if min_periods_of w mp \<le> length obs \<and> obs \<noteq> []
        then Fin (sum_list obs / real (length obs)) else NaN)"
  by (simp add: rolling_mean_def)

lemma rolling_sum_nth:
  "t < length xs \<Longrightarrow>
     rolling_sum w mp xs ! t =
       (let obs = window_obs w xs t in
        if min_periods_of w mp \<le> length obs then Fin (sum_list obs) else NaN)"
  by (simp add: rolling_sum_def)

lemma rolling_mean_close_nth:
  assumes "j < length close"
  shows "rolling_mean 14 None (map Fin close) ! j =
           (if 13 \<le> j then Fin (sum_list (take 14 (drop (j - 13) close)) / 14) else NaN)"
proof (cases "13 \<le> j")
  case True
  have "drop (Suc j - 14) (take (Suc j) close) = take 14 (drop (j - 13) close)"
    using True by (simp add: drop_take)
  moreover have "length (take 14 (drop (j - 13) close)) = 14"
    using True assms by simp
  ultimately show ?thesis
    using True assms
    by (simp add: rolling_mean_nth window_obs_Fin min_periods_of_def Let_def del: length_take)
next
  case False
  then show ?thesis using assms by (simp add: rolling_mean_default_nan)
qed

subsection \<open>MACD, signal line and histogram\<close>

text \<open>Every call of the older file's \<^verbatim>\<open>getInfoToday\<close> ends at line 178.\<close>

lemma getInfoToday_name_error: "getInfoToday x s period = Inl NameError"
  by (simp add: getInfoToday_def read_global_def old_module_names_def)

text \<open>In \<^verbatim>\<open>indicators_past_num_days\<close> the signal line is, at every position, the
  mean of the MACD values of the window so far, at most nine of them.\<close>

lemma macd_series_Fin:
  "macd_series close = map Fin (map2 (-) (ewm_mean 12 close) (ewm_mean 26 close))"
  by (simp add: macd_series_def series_sub_def ema_series_def zip_map_map fsub_def
      split_def)

lemma signal_line_mean_so_far:
  assumes "t < length close"
  shows "rolling_mean 9 (Some 1) (macd_series close) ! t =
           Fin (sum_list (drop (Suc t - 9) (take (Suc t)
                   (map2 (-) (ewm_mean 12 close) (ewm_mean 26 close))))
                / real (min (Suc t) 9))"
proof -
  define m where "m = map2 (-) (ewm_mean 12 close) (ewm_mean 26 close)"
  define wv where "wv = drop (Suc t - 9) (take (Suc t) m)"
  have len: "length m = length close"
    by (simp add: m_def ewm_mean_length)
  have w: "length wv = min (Suc t) 9"
    using assms len by (auto simp add: wv_def)
  have ne: "wv \<noteq> []" using w by auto
  have obs: "window_obs 9 (map Fin m) t = wv"
    by (simp add: window_obs_Fin wv_def)
  have "t < length (map Fin m)" using assms len by simp
  then have "rolling_mean 9 (Some 1) (map Fin m) ! t
               = (let obs = window_obs 9 (map Fin m) t in
                  if min_periods_of 9 (Some 1) \<le> length obs \<and> obs \<noteq> []
                  then Fin (sum_list obs / real (length obs)) else NaN)"
    by (rule rolling_mean_nth)
  also have "\<dots> = Fin (sum_list wv / real (min (Suc t) 9))"
    using ne w by (simp add: obs min_periods_of_def Let_def Suc_le_eq)
  finally show ?thesis
    by (simp add: macd_series_Fin m_def wv_def)
qed

lemma ewm_12_demo: "ewm_mean 12 [10, 20, 15] = [10, 150 / 13, 2040 / 169]"
  by (simp add: ewm_mean_def Let_def)

lemma ewm_26_demo: "ewm_mean 26 [10, 20, 15] = [10, 290 / 27, 8060 / 729]"
  by (simp add: ewm_mean_def Let_def)

lemma macd_demo:
  "macd_series [10, 20, 15] = [Fin 0, Fin (280 / 351), Fin (125020 / 123201)]"
  by (simp add: macd_series_def ema_series_def series_sub_def fsub_def ewm_12_demo ewm_26_demo)

lemma old_macd_demo:
  "old_macd [10, 20, 15] = [Fin 0, Fin (280 / 351), Fin (125020 / 123201)]"
  by (simp add: old_macd_def old_ema12_def old_ema26_def py_tail_def ema_series_def
      series_sub_def fsub_def ewm_12_demo ewm_26_demo)

lemma upt3: "[0..<3] = [0, 1, 2]"
  by (simp add: upt_rec)

lemma signal_line_demo:
  "signal_line 3 [10, 20, 15] = [Fin 0, Fin (140 / 351), Fin (223300 / 369603)]"
  by (simp add: signal_line_def macd_demo rolling_mean_def window_obs_def min_periods_of_def
      py_tail_def Let_def upt3)

lemma histogram_demo:
  "histogram 3 [10, 20, 15] = [Fin 0, Fin (140 / 351), Fin (151760 / 369603)]"
  by (simp add: histogram_def series_sub_tail_def macd_demo signal_line_demo py_tail_def
      fsub_def)

text \<open>
  Claim C4.  The claim is that in both \<^verbatim>\<open>getInfoToday\<close> and
  \<^verbatim>\<open>indicators_past_num_days\<close> the MACD is EMA(12) minus EMA(26), the signal
  line is the 9-period rolling mean of the MACD with minimum periods 1 (the
  mean of the points so far at the first positions, never NaN), and the
  histogram is MACD minus signal line.  Evaluated: every call of
  \<^verbatim>\<open>getInfoToday\<close> raises \<^verbatim>\<open>NameError\<close> at line 178, before any series is
  derived, while \<^verbatim>\<open>indicators_past_num_days\<close> on Close = 10, 20, 15 derives
  the MACD, the means so far as signal line and their difference as
  histogram.
\<close>

theorem getInfoToday_derives_no_macd:
  "getInfoToday x s period = Inl NameError
   \<and> macd_series [10, 20, 15] = [Fin 0, Fin (280 / 351), Fin (125020 / 123201)]
   \<and> signal_line 3 [10, 20, 15] = [Fin 0, Fin (140 / 351), Fin (223300 / 369603)]
   \<and> histogram 3 [10, 20, 15] = [Fin 0, Fin (140 / 351), Fin (151760 / 369603)]"
  by (simp add: getInfoToday_name_error macd_demo signal_line_demo histogram_demo)

subsection \<open>Relative strength index\<close>

lemma change_demo: "change 3 [10, 20, 15] = [NaN, Fin 10, Fin (- 5)]"
  by (simp add: change_def diff_def py_tail_def)

lemma old_change_demo: "old_change [10, 20, 15] = [NaN, Fin 10, Fin (- 5)]"
  by (simp add: old_change_def diff_def py_tail_def)

text \<open>
  Claim C6.  The claim is that the RSI column is computed from Gain and Loss
  (the positive part and the absolute negative part of Change) through
  14-period rolling means with minimum periods 1, RS = Avg Gain / Avg Loss
  and RSI = 100 - 100 / (1 + RS), a zero Avg Loss being propagated and not
  special-cased.  Evaluated on Close = 10, 20, 15: the lines of \<^verbatim>\<open>getInfoToday\<close> do so
  (Avg Loss 0 with Avg Gain 0 gives NaN, Avg Loss 0 with Avg Gain 5 gives an
  infinite RS and RSI 100, then RS 2 gives 200/3), but the RSI column of
  \<^verbatim>\<open>indicators_past_num_days\<close> is NaN throughout, its rolling means being
  taken without \<^verbatim>\<open>min_periods\<close>.
\<close>

theorem rsi_window_starts_nan:
  "rsi 3 [10, 20, 15] = [NaN, NaN, NaN]
   \<and> old_avg_gain [10, 20, 15] = [Fin 0, Fin 5, Fin (10 / 3)]
   \<and> old_avg_loss [10, 20, 15] = [Fin 0, Fin 0, Fin (5 / 3)]
   \<and> old_rs [10, 20, 15] = [NaN, PInf, Fin 2]
   \<and> old_rsi [10, 20, 15] = [NaN, Fin 100, Fin (200 / 3)]"
proof -
  have a: "rsi 3 [10, 20, 15] = [NaN, NaN, NaN]"
    by (simp add: rsi_def change_demo rolling_mean_def window_obs_def min_periods_of_def
        py_tail_def Let_def upt3 series_div_def rsi_of_def fsub_def)
  have g: "old_avg_gain [10, 20, 15] = [Fin 0, Fin 5, Fin (10 / 3)]"
    by (simp add: old_avg_gain_def old_change_demo rolling_mean_def window_obs_def
        min_periods_of_def py_tail_def Let_def upt3)
  have l: "old_avg_loss [10, 20, 15] = [Fin 0, Fin 0, Fin (5 / 3)]"
    by (simp add: old_avg_loss_def old_change_demo rolling_mean_def window_obs_def
        min_periods_of_def py_tail_def Let_def upt3)
  have r: "old_rs [10, 20, 15] = [NaN, PInf, Fin 2]"
    by (simp add: old_rs_def g l series_div_def)
  have "old_rsi [10, 20, 15] = [NaN, Fin 100, Fin (200 / 3)]"
    by (simp add: old_rsi_def r rsi_of_def fsub_def)
  with a g l r show ?thesis by simp
qed

section \<open>TRAMA\<close>

lemma py_tail_map2:
  "length xs = length ys \<Longrightarrow>
     map2 f (py_tail n xs) (py_tail n ys) = py_tail n (map2 f xs ys)"
  by (simp add: py_tail_def drop_map drop_zip)

lemma py_tail_map: "map f (py_tail n xs) = py_tail n (map f xs)"
  by (simp add: py_tail_def drop_map)

lemma trama_as_tail: "trama n close = py_tail n (trama 0 close)"
proof -
  have z: "py_tail 0 xs = xs" for xs :: "fl list" by (simp add: py_tail_def)
  show ?thesis
    by (simp add: trama_def Let_def series_add_def z py_tail_map
        py_tail_map2 length_rolling_mean length_diff)
qed

lemma old_trama_as_tail: "old_trama 14 close = py_tail 60 (trama 0 close)"
proof -
  have z: "py_tail 0 xs = xs" for xs :: "fl list" by (simp add: py_tail_def)
  show ?thesis
    by (simp add: trama_def old_trama_def Let_def series_add_def z py_tail_map
        py_tail_map2 length_rolling_mean length_diff)
qed

lemma length_trama_full: "length (trama 0 close) = length close"
  by (simp add: trama_def Let_def series_add_def py_tail_def length_rolling_mean length_diff)

lemma trama_full_nth:
  assumes "j < length close"
  shows "trama 0 close ! j =
           (if 13 \<le> j
            then Fin (sum_list (take 14 (drop (j - 13) close)) / 14
                      + \<bar>close ! j - close ! (j - 1)\<bar> * (1 / 10))
            else NaN)"
proof -
  have "trama 0 close ! j =
          fadd (rolling_mean 14 None (map Fin close) ! j)
               (fmul (fabs (diff close ! j)) (Fin (1 / 10)))"
    using assms
    by (simp add: trama_def Let_def series_add_def py_tail_def length_rolling_mean length_diff)
  then show ?thesis
    using assms by (simp add: rolling_mean_close_nth diff_nth)
qed

lemma derived_trama:
  "map_of (derived_columns x keys f n) ''TRAMA'' =
     (if ''TRAMA'' \<in> set keys then Some (Series (trama n (Close f))) else None)"
  by (simp add: derived_columns_def Let_def map_of_put_if map_of_put)

lemma old_columns_trama:
  "map_of (old_columns x period m f) ''TRAMA'' = Some (Series (old_trama period (Close f)))"
  by (simp add: old_columns_def Let_def)

lemma demo_wave_frame_Close: "Close demo_wave_frame = demo_wave"
  by (simp add: Close_def demo_wave_frame_def demo_wave_def)

text \<open>
  Claim C7, as amended.  For every Close series the TRAMA column (under the
  key \<^verbatim>\<open>TRAMA\<close>; trimmed to the trailing \<^verbatim>\<open>num_days\<close> rows in
  \<^verbatim>\<open>indicators_past_num_days\<close>, to 60 rows in the body of \<^verbatim>\<open>getInfoToday\<close>) is
  the trailing part of one series over the whole of Close which, at every
  position \<open>j\<close> with 14 Close values up to it, is the 14-period rolling mean
  of Close plus 0.1 times the absolute first difference of Close at that
  same position (taken pointwise, not aggregated over the window), and which
  is NaN at the first 13 positions.
\<close>

theorem trama_pointwise_volatility:
  "(''TRAMA'' \<in> set keys \<longrightarrow>
      map_of (derived_columns x keys f n) ''TRAMA'' = Some (Series (trama n (Close f))))
   \<and> (\<forall>d' low df.
         indicators_past_num_days x symbol e keys sc f n = Inr d' \<and> distinct keys
         \<and> ''TRAMA'' \<in> set keys \<and> ''TRAMA'' \<notin> set (excluded_values x)
         \<and> map_of sc ''TRAMA'' = Some (low, df)
         \<longrightarrow> map_of d' ''TRAMA'' = Some (Series (scale_series low df (trama n (Close f)))))
   \<and> map_of (old_columns x 14 m f) ''TRAMA'' = Some (Series (old_trama 14 (Close f)))
   \<and> trama n (Close f) = py_tail n (trama 0 (Close f))
   \<and> old_trama 14 (Close f) = py_tail 60 (trama 0 (Close f))
   \<and> length (trama 0 (Close f)) = length (Close f)
   \<and> (\<forall>j. 13 \<le> j \<and> j < length (Close f) \<longrightarrow>
         trama 0 (Close f) ! j =
           Fin (sum_list (take 14 (drop (j - 13) (Close f))) / 14
                + \<bar>Close f ! j - Close f ! (j - 1)\<bar> * (1 / 10)))
   \<and> (\<forall>j. j < 13 \<and> j < length (Close f) \<longrightarrow> trama 0 (Close f) ! j = NaN)"
proof -
  have scaled: "map_of d' ''TRAMA'' = Some (Series (scale_series low df (trama n (Close f))))"
    if "indicators_past_num_days x symbol e keys sc f n = Inr d'" "distinct keys"
       "''TRAMA'' \<in> set keys" "''TRAMA'' \<notin> set (excluded_values x)"
       "map_of sc ''TRAMA'' = Some (low, df)" for d' low df
    using indicators_column [OF that(1,2,3,4)] that(3,5) by (auto simp add: derived_trama)
  have tails: "trama n (Close f) = py_tail n (trama 0 (Close f))"
    by (rule trama_as_tail)
  show ?thesis
    using trama_full_nth [of _ "Close f"] scaled tails
    by (simp add: old_trama_as_tail length_trama_full derived_trama old_columns_trama)
qed

theorem trama_pointwise_volatility_witness:
  "map_of (derived_columns demo_ext [''Close'', ''TRAMA''] demo_wave_frame 15) ''TRAMA''
     = Some (Series (trama 15 demo_wave))
   \<and> trama 15 demo_wave = py_tail 15 (trama 0 demo_wave)
   \<and> length (trama 0 demo_wave) = 15
   \<and> trama 0 demo_wave ! 14 = Fin (8 / 7)
   \<and> trama 0 demo_wave ! 12 = NaN"
proof -
  have len: "length demo_wave = 15" by (simp add: demo_wave_def)
  have ev: "sum_list (take 14 (drop (14 - 13) demo_wave)) / 14
              + \<bar>demo_wave ! 14 - demo_wave ! (14 - 1)\<bar> * (1 / 10) = 8 / 7"
    by (simp add: demo_wave_def)
  have k: "''TRAMA'' \<in> set [''Close'', ''TRAMA'']" by simp
  from trama_pointwise_volatility [of "[''Close'', ''TRAMA'']" demo_ext demo_wave_frame 15]
  have col: "''TRAMA'' \<in> set [''Close'', ''TRAMA''] \<longrightarrow>
      map_of (derived_columns demo_ext [''Close'', ''TRAMA''] demo_wave_frame 15) ''TRAMA''
        = Some (Series (trama 15 demo_wave))"
    and a: "trama 15 demo_wave = py_tail 15 (trama 0 demo_wave)"
    and b: "length (trama 0 demo_wave) = length demo_wave"
    and c: "\<forall>j. 13 \<le> j \<and> j < length demo_wave \<longrightarrow>
         trama 0 demo_wave ! j =
           Fin (sum_list (take 14 (drop (j - 13) demo_wave)) / 14
                + \<bar>demo_wave ! j - demo_wave ! (j - 1)\<bar> * (1 / 10))"
    and d: "\<forall>j. j < 13 \<and> j < length demo_wave \<longrightarrow> trama 0 demo_wave ! j = NaN"
    unfolding demo_wave_frame_Close by blast+
  from c len have "trama 0 demo_wave ! 14 =
           Fin (sum_list (take 14 (drop (14 - 13) demo_wave)) / 14
                + \<bar>demo_wave ! 14 - demo_wave ! (14 - 1)\<bar> * (1 / 10))"
    by simp
  then have "trama 0 demo_wave ! 14 = Fin (8 / 7)" by (simp only: ev)
  moreover from d len have "trama 0 demo_wave ! 12 = NaN" by simp
  ultimately show ?thesis using col k a b len by simp
qed

lemma trama_claimed_nth:
  assumes "length (roll (map fabs (diff close))) = length close"
      and "0 < n" and "length close \<le> nat n" and "j < length close"
  shows "trama_claimed roll n close ! j =
           fadd (rolling_mean 14 None (map Fin close) ! j)
                (fmul (roll (map fabs (diff close)) ! j) (Fin (1 / 10)))"
  using assms
  by (simp add: trama_claimed_def Let_def series_add_def py_tail_def length_rolling_mean)

lemma demo_wave_abs_diff:
  "map fabs (diff demo_wave) =
     [NaN, Fin 2, Fin 2, Fin 2, Fin 2, Fin 2, Fin 2, Fin 2, Fin 2, Fin 2, Fin 2, Fin 2,
      Fin 2, Fin 2, Fin 0]"
  by (simp add: diff_def demo_wave_def)

lemma demo_wave_trama_last: "trama 15 demo_wave ! 14 = Fin (8 / 7)"
proof -
  have "trama 15 demo_wave = trama 0 demo_wave"
    by (simp add: trama_as_tail [of 15] py_tail_def length_trama_full demo_wave_def)
  moreover have "trama 0 demo_wave ! 14 = Fin (8 / 7)"
    by (simp add: trama_full_nth demo_wave_def)
  ultimately show ?thesis by simp
qed

lemma demo_wave_mean_last: "rolling_mean 14 None (map Fin demo_wave) ! 14 = Fin (8 / 7)"
proof -
  have "sum_list (take 14 (drop (14 - 13) demo_wave)) / 14 = 8 / 7"
    by (simp add: demo_wave_def)
  moreover have "14 < length demo_wave" by (simp add: demo_wave_def)
  ultimately show ?thesis using rolling_mean_close_nth [of 14 demo_wave] by simp
qed

lemma demo_wave_claimed_mean:
  "trama_claimed (rolling_mean 14 None) 15 demo_wave ! 14 = Fin (93 / 70)"
proof -
  have len: "length demo_wave = 15" by (simp add: demo_wave_def)
  have "rolling_mean 14 None (map fabs (diff demo_wave)) ! 14 = Fin (13 / 7)"
    by (simp add: demo_wave_abs_diff rolling_mean_nth window_obs_def min_periods_of_def Let_def)
  moreover note demo_wave_mean_last
  ultimately show ?thesis
    by (simp add: trama_claimed_nth length_rolling_mean length_diff len)
qed

lemma demo_wave_claimed_sum:
  "trama_claimed (rolling_sum 14 None) 15 demo_wave ! 14 = Fin (131 / 35)"
proof -
  have len: "length demo_wave = 15" by (simp add: demo_wave_def)
  have "rolling_sum 14 None (map fabs (diff demo_wave)) ! 14 = Fin 26"
    by (simp add: demo_wave_abs_diff rolling_sum_nth window_obs_def min_periods_of_def Let_def)
  moreover note demo_wave_mean_last
  moreover have "length (rolling_sum 14 None (map fabs (diff demo_wave))) = length demo_wave"
    by (simp add: rolling_sum_def length_diff)
  ultimately show ?thesis
    by (simp add: trama_claimed_nth len)
qed

text \<open>
  Claim C7, as stated, fails.  It says that the volatility term of TRAMA is
  the absolute first difference aggregated over the same 14-period window.
  On fifteen closing prices that swing between 0 and 2 and end with 2, 2, the
  TRAMA column of \<^verbatim>\<open>indicators_past_num_days\<close> is 8/7 at the last position (the
  rolling mean of Close plus 0.1 times the last difference, which is 0); with
  the rolling mean of the absolute differences it would be 93/70, with
  their rolling sum 131/35.
\<close>

theorem trama_volatility_not_windowed:
  "map_of (derived_columns demo_ext [''Close'', ''TRAMA''] demo_wave_frame 15) ''TRAMA''
     = Some (Series (trama 15 demo_wave))
   \<and> trama 15 demo_wave ! 14 = Fin (8 / 7)
   \<and> trama_claimed (rolling_mean 14 None) 15 demo_wave ! 14 = Fin (93 / 70)
   \<and> trama_claimed (rolling_sum 14 None) 15 demo_wave ! 14 = Fin (131 / 35)
   \<and> trama 15 demo_wave \<noteq> trama_claimed (rolling_mean 14 None) 15 demo_wave
   \<and> trama 15 demo_wave \<noteq> trama_claimed (rolling_sum 14 None) 15 demo_wave"
proof -
  have "trama 15 demo_wave ! 14 \<noteq> trama_claimed (rolling_mean 14 None) 15 demo_wave ! 14"
    by (simp add: demo_wave_trama_last demo_wave_claimed_mean)
  then have m: "trama 15 demo_wave \<noteq> trama_claimed (rolling_mean 14 None) 15 demo_wave"
    by auto
  have "trama 15 demo_wave ! 14 \<noteq> trama_claimed (rolling_sum 14 None) 15 demo_wave ! 14"
    by (simp add: demo_wave_trama_last demo_wave_claimed_sum)
  then have s: "trama 15 demo_wave \<noteq> trama_claimed (rolling_sum 14 None) 15 demo_wave"
    by auto
  have "map_of (derived_columns demo_ext [''Close'', ''TRAMA''] demo_wave_frame 15) ''TRAMA''
     = Some (Series (trama 15 demo_wave))"
    by (simp add: derived_trama demo_wave_frame_Close)
  then show ?thesis
    using m s by (simp add: demo_wave_trama_last demo_wave_claimed_mean demo_wave_claimed_sum)
qed

section \<open>The earnings feature\<close>

text \<open>The loop of \<^verbatim>\<open>indicators_past_num_days\<close> tests the one string \<^verbatim>\<open>end_date\<close>
  and looks up the one \<^verbatim>\<open>datetime\<close> computed before it, so every row of the
  window gets the same cell; it is 0 whenever \<^verbatim>\<open>end_date\<close> is no announcement
  date.\<close>

lemma collect_const:
  "collect (\<lambda>i. r) js =
     (case r of
        Inl e \<Rightarrow> (if js = [] then Inr [] else Inl e)
      | Inr v \<Rightarrow> Inr (replicate (length js) v))"
  by (induction js) (auto split: sum.splits)

lemma earning_diffs_constant:
  assumes "earning_diffs earnings_dates earnings_diff end_day n low d = Inr vs"
  shows "\<exists>v. vs = replicate (nat n) v"
  using assms unfolding earning_diffs_def Let_def collect_const
  by (auto split: sum.splits if_splits)

lemma earning_diffs_zero:
  assumes "DStr end_day \<notin> set earnings_dates"
  shows "earning_diffs earnings_dates earnings_diff end_day n low d
           = Inr (replicate (nat n) (Fin 0))"
  using assms unfolding earning_diffs_def Let_def collect_const by simp

lemma upt2: "[0..<2] = [0, 1]"
  by (simp add: upt_rec)

text \<open>
  Claim C9.  The claim is that for every date of the trailing window the
  earnings feature emits the surprise of that date when the date is a known
  announcement date, and 0 otherwise, membership and look-up being made on
  the same date of the window.  Evaluated with an end date of day 102: an
  announcement on day 101, inside the window, with surprise 0.5 gives zeros
  only, in both files; and an announcement on the end date itself raises
  \<^verbatim>\<open>ValueError\<close>, the look-up being made on another value than the membership
  test.
\<close>

theorem earning_diffs_ignore_window_dates:
  "earning_diffs [DStr 101] [1 / 2] 102 2 0 1 = Inr [Fin 0, Fin 0]
   \<and> earning_diffs [DStr 102] [1 / 2] 102 2 0 1 = Inl ValueError
   \<and> old_earnings_diff [DStr 101] [1 / 2] 102 = Inr [Fin 0, Fin 0, Fin 0]
   \<and> old_earnings_diff [DTime 102] [1 / 2] 102 = Inl ValueError"
  by (simp add: earning_diffs_def old_earnings_diff_def old_all_dates_def strptime_def
      upt2 upt3 py_get_def)

section \<open>Prediction\<close>

text \<open>With an info that is given, \<^verbatim>\<open>predict\<close> of the newer file returns the
  model's prediction, or raises \<^verbatim>\<open>LookupError\<close> when no model is loaded, and
  leaves the object as it was.  The older file does so for an info that is
  true; one that is false (the empty list, the empty array) is treated as
  none and sent through \<^verbatim>\<open>getInfoToday\<close>, and an array of several elements
  has no truth value.\<close>

lemma predict_without_model:
  "model s = None \<Longrightarrow> predict x s (Some i) = (Inl LookupError, s)"
  by (simp add: predict_def)

lemma predict_with_model:
  "model s = Some m \<Longrightarrow> predict x s (Some i) = (Inr (m i), s)"
  by (simp add: predict_def)

lemma old_predict_without_model:
  "old_model s = None \<Longrightarrow> not_old_info i = Inr False
     \<Longrightarrow> old_predict x s (Some i) = Inl LookupError"
  by (simp add: old_predict_def)

lemma old_predict_with_model:
  "old_model s = Some m \<Longrightarrow> not_old_info i = Inr False
     \<Longrightarrow> old_predict x s (Some i) = Inr (m i)"
  by (simp add: old_predict_def)

lemma old_predict_false_info:
  "not_old_info i = Inr True \<Longrightarrow> old_predict x s (Some i) = Inl NameError"
  by (simp add: old_predict_def getInfoToday_name_error)

lemma old_predict_ambiguous_info:
  "not_old_info i = Inl e \<Longrightarrow> old_predict x s (Some i) = Inl e"
  by (simp add: old_predict_def)

text \<open>
  Claim C10.  The claim is that \<^verbatim>\<open>predict\<close>, called on an instance without a
  model with an info argument that is not \<^verbatim>\<open>None\<close>, raises \<^verbatim>\<open>LookupError\<close> and
  changes nothing, and that with a model it returns the model's prediction
  on that info.  Evaluated on instances without a model: the older file's
  \<^verbatim>\<open>predict\<close>, given the empty list, goes into \<^verbatim>\<open>getInfoToday\<close> and raises
  \<^verbatim>\<open>NameError\<close>; given an array of two rows it raises \<^verbatim>\<open>ValueError\<close>; given a
  list that is not empty it raises \<^verbatim>\<open>LookupError\<close>, as the newer file's does
  on every info.
\<close>

theorem old_predict_not_info:
  "old_predict demo_ext demo_old (Some (InfoList [])) = Inl NameError
   \<and> old_predict demo_ext demo_old (Some (InfoArray (Mat 1 [[Num (Fin 1)], [Num (Fin 2)]])))
       = Inl ValueError
   \<and> old_predict demo_ext demo_old (Some (InfoList [[Fin 1]])) = Inl LookupError
   \<and> predict demo_ext demo_model (Some (Vec [])) = (Inl LookupError, demo_model)"
proof -
  have m: "old_model demo_old = None" by (simp add: demo_old_def)
  have "old_predict demo_ext demo_old (Some (InfoList [])) = Inl NameError"
    by (simp add: old_predict_false_info)
  moreover have
    "old_predict demo_ext demo_old (Some (InfoArray (Mat 1 [[Num (Fin 1)], [Num (Fin 2)]])))
       = Inl ValueError"
    by (simp add: old_predict_ambiguous_info)
  moreover have "old_predict demo_ext demo_old (Some (InfoList [[Fin 1]])) = Inl LookupError"
    by (simp add: old_predict_without_model m)
  moreover have "predict demo_ext demo_model (Some (Vec [])) = (Inl LookupError, demo_model)"
    by (simp add: predict_def demo_model_def)
  ultimately show ?thesis by simp
qed

end
